theory Spec2Isabelle
  imports Complex_Main "HOL-Library.Word"
begin

unbundle bit_operations_syntax

section \<open>Pre-selection of 2-prong and 3-prong secondary vertices\<close>

text \<open>
  A shallow embedding of \<^verbatim>\<open>PWGHF/TableProducer/HFTrackIndexSkimsCreator.cxx\<close>:
  the candidate selections \<^verbatim>\<open>is2ProngPreselected\<close>, \<^verbatim>\<open>is3ProngPreselected\<close>,
  \<^verbatim>\<open>is2ProngSelected\<close>, \<^verbatim>\<open>is3ProngSelected\<close>, the single-track cut
  \<^verbatim>\<open>isSelectedTrack\<close> and the track loops of \<^verbatim>\<open>HfTrackIndexSkimsCreator::process\<close>.

  Conventions of the embedding.
  \<^item> C \<^verbatim>\<open>int\<close> bit maps are \<open>32 word\<close>; \<^verbatim>\<open>x > 0\<close> on them is the signed
    comparison \<open>0 <s x\<close>.
  \<^item> \<^verbatim>\<open>float\<close> and \<^verbatim>\<open>double\<close> values are real numbers: the comparisons of the
    source are modelled on finite, non-NaN values, and rounding is not modelled.
  \<^item> Fixed-size C arrays that the source indexes only below their size
    (\<^verbatim>\<open>cutStatus\<close>, \<^verbatim>\<open>whichHypo\<close>, \<^verbatim>\<open>cut2Prong\<close>, \<^verbatim>\<open>pTBins2Prong\<close>, ...) are
    functions from the index.
  \<^item> Histogram filling has no influence on the tables produced and is left out.
\<close>

subsection \<open>The bit macros\<close>

type_synonym int32 = "32 word"

text \<open>\<^verbatim>\<open>BIT(n)\<close>, \<^verbatim>\<open>TESTBIT(n, i)\<close> and \<^verbatim>\<open>CLRBIT(n, i)\<close> as the source uses them
  on \<^verbatim>\<open>int\<close> bit maps: \<^verbatim>\<open>1 << n\<close>, \<^verbatim>\<open>(n & BIT(i)) != 0\<close> and
  \<^verbatim>\<open>n &= ~BIT(i)\<close>.\<close>

definition BIT :: "nat \<Rightarrow> int32" where
  "BIT n = push_bit n 1"

definition TESTBIT :: "int32 \<Rightarrow> nat \<Rightarrow> bool" where
  "TESTBIT n i = (n AND BIT i \<noteq> 0)"

definition CLRBIT :: "int32 \<Rightarrow> nat \<Rightarrow> int32" where
  "CLRBIT n i = n AND NOT (BIT i)"

text \<open>\<^verbatim>\<open>enum CandidateType { Cand2Prong = 0, Cand3Prong, CandV0bachelor, NCandidateTypes }\<close>\<close>

definition Cand2Prong :: nat where "Cand2Prong = 0"
definition Cand3Prong :: nat where "Cand3Prong = 1"
definition CandV0bachelor :: nat where "CandV0bachelor = 2"

text \<open>The numbers of decay channels and of selections, as \<^verbatim>\<open>init\<close> and the output rows fix
  them: three 2-prong channels (D0ToPiK, JpsiToEE, JpsiToMuMu), four 3-prong channels
  (DPlusToPiKPi, LcToPKPi, DsToPiKK, XicToPKPi), four selections each.\<close>

definition n2ProngDecays :: nat where "n2ProngDecays = 3"
definition n3ProngDecays :: nat where "n3ProngDecays = 4"
definition nCuts2Prong :: nat where "nCuts2Prong = 4"
definition nCuts3Prong :: nat where "nCuts3Prong = 4"

subsection \<open>The pT-bin lookup\<close>

text \<open>Modelled from the spec: \<^verbatim>\<open>findBin\<close> is declared in a header of this repository
  that is not among the sources. The spec (4.1): given the edges and a pT value, it
  "returns the zero-based bin index such that \<^verbatim>\<open>edges[i] <= pT < edges[i+1]\<close>, or the
  sentinel \<^verbatim>\<open>-1\<close> if pT is outside \<^verbatim>\<open>[edges[0], edges[k])\<close>". \<open>findBinFrom\<close> scans
  the bins from the one numbered \<open>i\<close>.\<close>

fun findBinFrom :: "int \<Rightarrow> real list \<Rightarrow> real \<Rightarrow> int" where
  "findBinFrom i (a # b # es) v =
     (if a \<le> v \<and> v < b then i else findBinFrom (i + 1) (b # es) v)"
| "findBinFrom i es v = - 1"

text \<open>Modelled from the spec: the lookup itself, scanning from bin 0.\<close>

definition findBin :: "real list \<Rightarrow> real \<Rightarrow> int" where
  "findBin edges v = findBinFrom 0 edges v"

subsection \<open>Data\<close>

text \<open>A row of a cut table (\<^verbatim>\<open>LabeledArray<double>\<close>, one row per pT bin): the columns
  the selections read by name.\<close>

record cutRow =
  massMin :: real
  massMax :: real
  d0d0 :: real
  cosp :: real
  decL :: real

type_synonym vec3 = "real \<times> real \<times> real"

text \<open>A row of the filtered track table, with the columns \<^verbatim>\<open>process\<close> and the
  pre-selections read.\<close>

record track =
  globalIndex :: int
  signed1Pt :: real
  isSelProng :: int32
  pxProng :: real
  pyProng :: real
  pzProng :: real
  dcaXY :: real

definition mom :: "track \<Rightarrow> vec3" where
  "mom t = (pxProng t, pyProng t, pzProng t)"

text \<open>The kinematic helpers of \<^verbatim>\<open>RecoDecay\<close> and the PDG masses are not among the
  sources; the selections take them as parameters.\<close>

record RecoDecay =
  RecoDecay_Pt :: "vec3 list \<Rightarrow> real"
  RecoDecay_M2 :: "vec3 list \<Rightarrow> real list \<Rightarrow> real"
  RecoDecay_CPA :: "vec3 \<Rightarrow> vec3 \<Rightarrow> vec3 \<Rightarrow> real"
  RecoDecay_distance :: "vec3 \<Rightarrow> vec3 \<Rightarrow> real"
  RecoDecay_PVec :: "vec3 list \<Rightarrow> vec3"
  massPi :: real
  massK :: real
  massProton :: real
  massElectron :: real
  massMuon :: real

text \<open>The configurables and the arrays \<^verbatim>\<open>init\<close> fills from them.\<close>

record config =
  debug :: bool
  do3prong :: int
  pTTolerance :: real
  pTBins2Prong :: "nat \<Rightarrow> real list"
  cut2Prong :: "nat \<Rightarrow> nat \<Rightarrow> cutRow"
  pTBins3Prong :: "nat \<Rightarrow> real list"
  cut3Prong :: "nat \<Rightarrow> nat \<Rightarrow> cutRow"


text \<open>\<^verbatim>\<open>arrMass2Prong[iDecay][k]\<close> and \<^verbatim>\<open>arrMass3Prong[iDecay][k]\<close> as \<^verbatim>\<open>init\<close> sets them.\<close>

definition arrMass2Prong :: "RecoDecay \<Rightarrow> nat \<Rightarrow> nat \<Rightarrow> real list" where
  "arrMass2Prong rd iDecay k =
     (if iDecay = 0 then (if k = 0 then [massPi rd, massK rd] else [massK rd, massPi rd])
      else if iDecay = 1 then [massElectron rd, massElectron rd]
      else [massMuon rd, massMuon rd])"

definition arrMass3Prong :: "RecoDecay \<Rightarrow> nat \<Rightarrow> nat \<Rightarrow> real list" where
  "arrMass3Prong rd iDecay k =
     (if iDecay = 0 then [massPi rd, massK rd, massPi rd]
      else if iDecay = 1 then
        (if k = 0 then [massProton rd, massK rd, massPi rd] else [massPi rd, massK rd, massProton rd])
      else if iDecay = 2 then
        (if k = 0 then [massK rd, massK rd, massPi rd] else [massPi rd, massK rd, massK rd])
      else
        (if k = 0 then [massProton rd, massK rd, massPi rd] else [massPi rd, massK rd, massProton rd]))"

text \<open>The three in-out parameters of a selection: the debug matrix \<^verbatim>\<open>cutStatus\<close>, the
  array \<^verbatim>\<open>whichHypo\<close> and the bit map \<^verbatim>\<open>isSelected\<close>.\<close>

record selState =
  cutStatus :: "nat \<Rightarrow> nat \<Rightarrow> bool"
  whichHypo :: "nat \<Rightarrow> int"
  isSelected :: int32

subsection \<open>The selection stages\<close>

text \<open>The block every failing cut runs:
  \<^verbatim>\<open>CLRBIT(isSelected, iDecay); if (debug) { cutStatus[iDecay][iCut] = false; }\<close>\<close>

definition rejectAt :: "bool \<Rightarrow> nat \<Rightarrow> nat \<Rightarrow> selState \<Rightarrow> selState" where
  "rejectAt dbg iDecay iCut s =
     s\<lparr>cutStatus := (if dbg then (cutStatus s)(iDecay := (cutStatus s iDecay)(iCut := False))
                      else cutStatus s),
       isSelected := CLRBIT (isSelected s) iDecay\<rparr>"

text \<open>The invariant-mass block of both pre-selections (lines 670-690 and 750-770), for
  the cut row of the candidate's pT bin; \<open>m0\<close> and \<open>m1\<close> are \<^verbatim>\<open>massHypos[0]\<close> and
  \<^verbatim>\<open>massHypos[1]\<close>.\<close>

definition massStage :: "bool \<Rightarrow> nat \<Rightarrow> cutRow \<Rightarrow> real \<Rightarrow> real \<Rightarrow> selState \<Rightarrow> selState" where
  "massStage dbg iDecay row m0 m1 s =
     (let s1 = s\<lparr>whichHypo := (whichHypo s)(iDecay := 3)\<rparr>;
          min2 = (massMin row)\<^sup>2;
          max2 = (massMax row)\<^sup>2
      in if (dbg \<or> TESTBIT (isSelected s1) iDecay) \<and> massMin row \<ge> 0 \<and> massMax row > 0 then
           (let s2 = (if m0 < min2 \<or> m0 \<ge> max2
                      then s1\<lparr>whichHypo := (whichHypo s1)(iDecay := whichHypo s1 iDecay - 1)\<rparr>
                      else s1);
                s3 = (if m1 < min2 \<or> m1 \<ge> max2
                      then s2\<lparr>whichHypo := (whichHypo s2)(iDecay := whichHypo s2 iDecay - 2)\<rparr>
                      else s2)
            in if whichHypo s3 iDecay = 0 then rejectAt dbg iDecay 1 s3 else s3)
         else s1)"

text \<open>The impact-parameter-product block of the 2-prong pre-selection (lines 692-701).\<close>

definition impParStage :: "bool \<Rightarrow> nat \<Rightarrow> cutRow \<Rightarrow> real \<Rightarrow> selState \<Rightarrow> selState" where
  "impParStage dbg iDecay row impParProduct s =
     (if dbg \<or> TESTBIT (isSelected s) iDecay then
        (if impParProduct > d0d0 row then rejectAt dbg iDecay 2 s else s)
      else s)"

text \<open>The pT both pre-selections look the bin up with (lines 654 and 734):
  \<^verbatim>\<open>RecoDecay::Pt(arrMom...) + pTTolerance\<close>.\<close>

definition preselPt :: "config \<Rightarrow> RecoDecay \<Rightarrow> vec3 list \<Rightarrow> real" where
  "preselPt cfg rd arrMom = RecoDecay_Pt rd arrMom + pTTolerance cfg"

text \<open>One turn of the loop over the 2-prong channels in \<^verbatim>\<open>is2ProngPreselected\<close>.\<close>

definition presel2Decay :: "config \<Rightarrow> RecoDecay \<Rightarrow> track \<Rightarrow> track \<Rightarrow> nat \<Rightarrow> selState \<Rightarrow> selState" where
  "presel2Decay cfg rd hfTrack0 hfTrack1 iDecay2P s =
     (let arrMom = [mom hfTrack0, mom hfTrack1];
          pT = preselPt cfg rd arrMom;
          pTBin = findBin (pTBins2Prong cfg iDecay2P) pT
      in if pTBin = - 1 then rejectAt (debug cfg) iDecay2P 0 s
         else
           (let row = cut2Prong cfg iDecay2P (nat pTBin)
            in impParStage (debug cfg) iDecay2P row (dcaXY hfTrack0 * dcaXY hfTrack1)
                 (massStage (debug cfg) iDecay2P row
                    (RecoDecay_M2 rd arrMom (arrMass2Prong rd iDecay2P 0))
                    (RecoDecay_M2 rd arrMom (arrMass2Prong rd iDecay2P 1)) s)))"

definition is2ProngPreselected :: "config \<Rightarrow> RecoDecay \<Rightarrow> track \<Rightarrow> track \<Rightarrow> selState \<Rightarrow> selState" where
  "is2ProngPreselected cfg rd hfTrack0 hfTrack1 s =
     fold (presel2Decay cfg rd hfTrack0 hfTrack1) [0..<n2ProngDecays] s"

text \<open>One turn of the loop over the 3-prong channels in \<^verbatim>\<open>is3ProngPreselected\<close>.\<close>

definition presel3Decay :: "config \<Rightarrow> RecoDecay \<Rightarrow> track \<Rightarrow> track \<Rightarrow> track \<Rightarrow> nat \<Rightarrow> selState \<Rightarrow> selState" where
  "presel3Decay cfg rd hfTrack0 hfTrack1 hfTrack2 iDecay3P s =
     (let arrMom = [mom hfTrack0, mom hfTrack1, mom hfTrack2];
          pT = preselPt cfg rd arrMom;
          pTBin = findBin (pTBins3Prong cfg iDecay3P) pT
      in if pTBin = - 1 then rejectAt (debug cfg) iDecay3P 0 s
         else
           (let row = cut3Prong cfg iDecay3P (nat pTBin)
            in massStage (debug cfg) iDecay3P row
                 (RecoDecay_M2 rd arrMom (arrMass3Prong rd iDecay3P 0))
                 (RecoDecay_M2 rd arrMom (arrMass3Prong rd iDecay3P 1)) s))"

definition is3ProngPreselected :: "config \<Rightarrow> RecoDecay \<Rightarrow> track \<Rightarrow> track \<Rightarrow> track \<Rightarrow> selState \<Rightarrow> selState" where
  "is3ProngPreselected cfg rd hfTrack0 hfTrack1 hfTrack2 s =
     fold (presel3Decay cfg rd hfTrack0 hfTrack1 hfTrack2) [0..<n3ProngDecays] s"

text \<open>The pointing-angle block (lines 808-817 and 859-868) and the decay-length block
  (lines 870-879) of the selections after the vertex fit; \<open>iCut\<close> is the column of
  \<^verbatim>\<open>cutStatus\<close> the block writes.\<close>

definition cospStage :: "bool \<Rightarrow> nat \<Rightarrow> nat \<Rightarrow> cutRow \<Rightarrow> real \<Rightarrow> selState \<Rightarrow> selState" where
  "cospStage dbg iDecay iCut row cpa s =
     (if dbg \<or> TESTBIT (isSelected s) iDecay then
        (if cpa < cosp row then rejectAt dbg iDecay iCut s else s)
      else s)"

definition decLStage :: "bool \<Rightarrow> nat \<Rightarrow> cutRow \<Rightarrow> real \<Rightarrow> selState \<Rightarrow> selState" where
  "decLStage dbg iDecay row decayLength s =
     (if dbg \<or> TESTBIT (isSelected s) iDecay then
        (if decayLength < decL row then rejectAt dbg iDecay 3 s else s)
      else s)"

definition sel2Decay :: "config \<Rightarrow> RecoDecay \<Rightarrow> vec3 \<Rightarrow> vec3 \<Rightarrow> vec3 \<Rightarrow> nat \<Rightarrow> selState \<Rightarrow> selState" where
  "sel2Decay cfg rd pVecCand secVtx primVtx iDecay2P s =
     (let pTBin = findBin (pTBins2Prong cfg iDecay2P) (RecoDecay_Pt rd [pVecCand])
      in if pTBin = - 1 then rejectAt (debug cfg) iDecay2P 0 s
         else cospStage (debug cfg) iDecay2P 3 (cut2Prong cfg iDecay2P (nat pTBin))
                (RecoDecay_CPA rd primVtx secVtx pVecCand) s)"

definition is2ProngSelected :: "config \<Rightarrow> RecoDecay \<Rightarrow> vec3 \<Rightarrow> vec3 \<Rightarrow> vec3 \<Rightarrow> selState \<Rightarrow> selState" where
  "is2ProngSelected cfg rd pVecCand secVtx primVtx s =
     (if debug cfg \<or> 0 <s isSelected s
      then fold (sel2Decay cfg rd pVecCand secVtx primVtx) [0..<n2ProngDecays] s
      else s)"

definition sel3Decay :: "config \<Rightarrow> RecoDecay \<Rightarrow> vec3 \<Rightarrow> vec3 \<Rightarrow> vec3 \<Rightarrow> nat \<Rightarrow> selState \<Rightarrow> selState" where
  "sel3Decay cfg rd pVecCand secVtx primVtx iDecay3P s =
     (let pTBin = findBin (pTBins3Prong cfg iDecay3P) (RecoDecay_Pt rd [pVecCand])
      in if pTBin = - 1 then rejectAt (debug cfg) iDecay3P 0 s
         else
           (let row = cut3Prong cfg iDecay3P (nat pTBin)
            in decLStage (debug cfg) iDecay3P row (RecoDecay_distance rd primVtx secVtx)
                 (cospStage (debug cfg) iDecay3P 2 row
                    (RecoDecay_CPA rd primVtx secVtx pVecCand) s)))"

definition is3ProngSelected :: "config \<Rightarrow> RecoDecay \<Rightarrow> vec3 \<Rightarrow> vec3 \<Rightarrow> vec3 \<Rightarrow> selState \<Rightarrow> selState" where
  "is3ProngSelected cfg rd pVecCand secVtx primVtx s =
     (if debug cfg \<or> 0 <s isSelected s
      then fold (sel3Decay cfg rd pVecCand secVtx primVtx) [0..<n3ProngDecays] s
      else s)"

text \<open>The part of a selection state that belongs to the channel \<open>i\<close>: its row of the debug
  matrix, its entry of \<^verbatim>\<open>whichHypo\<close> and its bit of \<^verbatim>\<open>isSelected\<close>.\<close>

definition chan :: "nat \<Rightarrow> selState \<Rightarrow> (nat \<Rightarrow> bool) \<times> int \<times> bool" where
  "chan i s = (cutStatus s i, whichHypo s i, TESTBIT (isSelected s) i)"

subsection \<open>The single-track cut\<close>

record trackCutRow =
  min_dcaxytoprimary :: real
  max_dcaxytoprimary :: real

text \<open>\<^verbatim>\<open>HfTagSelTracks::isSelectedTrack\<close> (lines 303-317), on the track's pT and its
  \<^verbatim>\<open>dca\<close> pair.\<close>

definition isSelectedTrack ::
  "real list \<Rightarrow> (nat \<Rightarrow> nat \<Rightarrow> trackCutRow) \<Rightarrow> real \<Rightarrow> real \<times> real \<Rightarrow> nat \<Rightarrow> bool" where
  "isSelectedTrack pTBinsTrack cutsSingleTrack pt dca candType =
     (let pTBinTrack = findBin pTBinsTrack pt
      in if pTBinTrack = - 1 then False
         else if \<bar>fst dca\<bar> < min_dcaxytoprimary (cutsSingleTrack candType (nat pTBinTrack)) then False
         else if \<bar>fst dca\<bar> > max_dcaxytoprimary (cutsSingleTrack candType (nat pTBinTrack)) then False
         else True)"

subsection \<open>The track loops of \<^verbatim>\<open>process\<close>\<close>

text \<open>The vertex fitter is an external solver: \<^verbatim>\<open>process\<close> returns the number of
  vertices found, and on success the fitter holds the vertex and the track momenta there.\<close>

record fitResult =
  nVtx :: int
  PCACandidate :: vec3
  trackMom :: "nat \<Rightarrow> vec3"

record DCAFitter =
  df2_process :: "track \<Rightarrow> track \<Rightarrow> fitResult"
  df3_process :: "track \<Rightarrow> track \<Rightarrow> track \<Rightarrow> fitResult"

text \<open>The output tables and the arrays \<^verbatim>\<open>process\<close> declares once and reuses for every
  candidate.\<close>

record procState =
  rowTrackIndexProng2 :: "(int \<times> int \<times> int32) list"
  rowProng2CutStatus :: "(int32 \<times> int32 \<times> int32) list"
  rowTrackIndexProng3 :: "(int \<times> int \<times> int \<times> int32) list"
  rowProng3CutStatus :: "(int32 \<times> int32 \<times> int32 \<times> int32) list"
  cutStatus2Prong :: "nat \<Rightarrow> nat \<Rightarrow> bool"
  cutStatus3Prong :: "nat \<Rightarrow> nat \<Rightarrow> bool"
  whichHypo2Prong :: "nat \<Rightarrow> int"
  whichHypo3Prong :: "nat \<Rightarrow> int"

definition n2ProngBit :: int32 where "n2ProngBit = BIT n2ProngDecays - 1"
definition n3ProngBit :: int32 where "n3ProngBit = BIT n3ProngDecays - 1"
definition nCutStatus2ProngBit :: int32 where "nCutStatus2ProngBit = BIT nCuts2Prong - 1"
definition nCutStatus3ProngBit :: int32 where "nCutStatus3ProngBit = BIT nCuts3Prong - 1"

text \<open>In debug mode every candidate starts from a matrix whose entries are all true.\<close>

definition resetCutStatus :: "nat \<Rightarrow> nat \<Rightarrow> (nat \<Rightarrow> nat \<Rightarrow> bool) \<Rightarrow> nat \<Rightarrow> nat \<Rightarrow> bool" where
  "resetCutStatus nDecays nCuts cs =
     (\<lambda>iDecay iCut. if iDecay < nDecays \<and> iCut < nCuts then True else cs iDecay iCut)"

text \<open>\<^verbatim>\<open>Prong2CutStatus[iDecay]\<close> and \<^verbatim>\<open>Prong3CutStatus[iDecay]\<close>: all bits on, then the
  bit of every selection the matrix row marks false is cleared.\<close>

definition cutStatusBits :: "nat \<Rightarrow> int32 \<Rightarrow> (nat \<Rightarrow> bool) \<Rightarrow> int32" where
  "cutStatusBits nCuts allBits row =
     fold (\<lambda>iCut w. if \<not> row iCut then CLRBIT w iCut else w) [0..<nCuts] allBits"

text \<open>The body of the loop over negative tracks up to the 3-prong part (lines 983-1063).\<close>

definition prong2Step ::
  "config \<Rightarrow> RecoDecay \<Rightarrow> DCAFitter \<Rightarrow> vec3 \<Rightarrow> track \<Rightarrow> track \<Rightarrow> procState \<Rightarrow> procState" where
  "prong2Step cfg rd df primVtx trackPos1 trackNeg1 st =
     (let cs0 = (if debug cfg
                 then resetCutStatus n2ProngDecays nCuts2Prong (cutStatus2Prong st)
                 else cutStatus2Prong st);
          s0 = \<lparr>cutStatus = cs0, whichHypo = whichHypo2Prong st, isSelected = n2ProngBit\<rparr>
      in if TESTBIT (isSelProng trackPos1) Cand2Prong \<and> TESTBIT (isSelProng trackNeg1) Cand2Prong then
           (let s1 = is2ProngPreselected cfg rd trackPos1 trackNeg1 s0;
                fit = df2_process df trackPos1 trackNeg1
            in if 0 <s isSelected s1 \<and> 0 < nVtx fit then
                 (let pVecCandProng2 = RecoDecay_PVec rd [trackMom fit 0, trackMom fit 1];
                      s2 = is2ProngSelected cfg rd pVecCandProng2 (PCACandidate fit) primVtx s1;
                      st2 = st\<lparr>cutStatus2Prong := cutStatus s2, whichHypo2Prong := whichHypo s2\<rparr>
                  in if 0 <s isSelected s2 then
                       st2\<lparr>rowTrackIndexProng2 := rowTrackIndexProng2 st2 @
                              [(globalIndex trackPos1, globalIndex trackNeg1, isSelected s2)],
                           rowProng2CutStatus :=
                             (if debug cfg
                              then rowProng2CutStatus st2 @
                                [(cutStatusBits nCuts2Prong nCutStatus2ProngBit (cutStatus s2 0),
                                  cutStatusBits nCuts2Prong nCutStatus2ProngBit (cutStatus s2 1),
                                  cutStatusBits nCuts2Prong nCutStatus2ProngBit (cutStatus s2 2))]
                              else rowProng2CutStatus st2)\<rparr>
                     else st2)
               else st\<lparr>cutStatus2Prong := cutStatus s1, whichHypo2Prong := whichHypo s1\<rparr>)
         else st\<lparr>cutStatus2Prong := cs0\<rparr>)"

text \<open>The body of the second loop over positive tracks (lines 1084-1138) and of the second
  loop over negative tracks (lines 1194-1250), which differ in the order of the tracks
  only.\<close>

definition prong3Step ::
  "config \<Rightarrow> RecoDecay \<Rightarrow> DCAFitter \<Rightarrow> vec3 \<Rightarrow> track \<Rightarrow> track \<Rightarrow> track \<Rightarrow> procState \<Rightarrow> procState" where
  "prong3Step cfg rd df primVtx track0 track1 track2 st =
     (let cs0 = (if debug cfg
                 then resetCutStatus n3ProngDecays nCuts3Prong (cutStatus3Prong st)
                 else cutStatus3Prong st);
          s0 = \<lparr>cutStatus = cs0, whichHypo = whichHypo3Prong st, isSelected = n3ProngBit\<rparr>;
          s1 = is3ProngPreselected cfg rd track0 track1 track2 s0
      in if \<not> debug cfg \<and> isSelected s1 = 0
         then st\<lparr>cutStatus3Prong := cutStatus s1, whichHypo3Prong := whichHypo s1\<rparr>
         else
           (let fit = df3_process df track0 track1 track2
            in if nVtx fit = 0
               then st\<lparr>cutStatus3Prong := cutStatus s1, whichHypo3Prong := whichHypo s1\<rparr>
               else
                 (let pVecCandProng3 = RecoDecay_PVec rd [trackMom fit 0, trackMom fit 1, trackMom fit 2];
                      s2 = is3ProngSelected cfg rd pVecCandProng3 (PCACandidate fit) primVtx s1;
                      st2 = st\<lparr>cutStatus3Prong := cutStatus s2, whichHypo3Prong := whichHypo s2\<rparr>
                  in if \<not> debug cfg \<and> isSelected s2 = 0 then st2
                     else
                       st2\<lparr>rowTrackIndexProng3 := rowTrackIndexProng3 st2 @
                              [(globalIndex track0, globalIndex track1, globalIndex track2, isSelected s2)],
                           rowProng3CutStatus :=
                             (if debug cfg
                              then rowProng3CutStatus st2 @
                                [(cutStatusBits nCuts3Prong nCutStatus3ProngBit (cutStatus s2 0),
                                  cutStatusBits nCuts3Prong nCutStatus3ProngBit (cutStatus s2 1),
                                  cutStatusBits nCuts3Prong nCutStatus3ProngBit (cutStatus s2 2),
                                  cutStatusBits nCuts3Prong nCutStatus3ProngBit (cutStatus s2 3))]
                              else rowProng3CutStatus st2)\<rparr>)))"

text \<open>The second loop over positive tracks, from the track after \<^verbatim>\<open>trackPos1\<close>
  (lines 1076-1182); tracks are named by their position in the table.\<close>

definition pos2Loop ::
  "config \<Rightarrow> RecoDecay \<Rightarrow> DCAFitter \<Rightarrow> vec3 \<Rightarrow> track list \<Rightarrow> nat \<Rightarrow> nat \<Rightarrow> procState \<Rightarrow> procState" where
  "pos2Loop cfg rd df primVtx tracks pos1 neg1 st =
     fold (\<lambda>pos2 st.
             if signed1Pt (tracks ! pos2) < 0 then st
             else if \<not> TESTBIT (isSelProng (tracks ! pos2)) Cand3Prong then st
             else prong3Step cfg rd df primVtx (tracks ! pos1) (tracks ! neg1) (tracks ! pos2) st)
          [pos1 + 1..<length tracks] st"

text \<open>The second loop over negative tracks, from the track after \<^verbatim>\<open>trackNeg1\<close>
  (lines 1186-1294).\<close>

definition neg2Loop ::
  "config \<Rightarrow> RecoDecay \<Rightarrow> DCAFitter \<Rightarrow> vec3 \<Rightarrow> track list \<Rightarrow> nat \<Rightarrow> nat \<Rightarrow> procState \<Rightarrow> procState" where
  "neg2Loop cfg rd df primVtx tracks pos1 neg1 st =
     fold (\<lambda>neg2 st.
             if signed1Pt (tracks ! neg2) > 0 then st
             else if \<not> TESTBIT (isSelProng (tracks ! neg2)) Cand3Prong then st
             else prong3Step cfg rd df primVtx (tracks ! neg1) (tracks ! pos1) (tracks ! neg2) st)
          [neg1 + 1..<length tracks] st"

text \<open>One turn of the first loop over negative tracks (lines 971-1296).\<close>

definition neg1Body ::
  "config \<Rightarrow> RecoDecay \<Rightarrow> DCAFitter \<Rightarrow> vec3 \<Rightarrow> track list \<Rightarrow> nat \<Rightarrow> nat \<Rightarrow> procState \<Rightarrow> procState" where
  "neg1Body cfg rd df primVtx tracks pos1 neg1 st =
     (let trackPos1 = tracks ! pos1;
          trackNeg1 = tracks ! neg1
      in if signed1Pt trackNeg1 > 0 then st
         else if \<not> TESTBIT (isSelProng trackNeg1) Cand2Prong \<and> \<not> TESTBIT (isSelProng trackNeg1) Cand3Prong
         then st
         else
           (let st1 = prong2Step cfg rd df primVtx trackPos1 trackNeg1 st
            in if do3prong cfg = 1 then
                 (if \<not> TESTBIT (isSelProng trackPos1) Cand3Prong \<or> \<not> TESTBIT (isSelProng trackNeg1) Cand3Prong
                  then st1
                  else if length tracks < 2 then st1
                  else neg2Loop cfg rd df primVtx tracks pos1 neg1
                         (pos2Loop cfg rd df primVtx tracks pos1 neg1 st1))
               else st1))"

text \<open>One turn of the first loop over positive tracks (lines 957-1297).\<close>

definition pos1Body ::
  "config \<Rightarrow> RecoDecay \<Rightarrow> DCAFitter \<Rightarrow> vec3 \<Rightarrow> track list \<Rightarrow> nat \<Rightarrow> procState \<Rightarrow> procState" where
  "pos1Body cfg rd df primVtx tracks pos1 st =
     (let trackPos1 = tracks ! pos1
      in if signed1Pt trackPos1 < 0 then st
         else if \<not> TESTBIT (isSelProng trackPos1) Cand2Prong \<and> \<not> TESTBIT (isSelProng trackPos1) Cand3Prong
         then st
         else fold (neg1Body cfg rd df primVtx tracks pos1) [0..<length tracks] st)"

text \<open>\<^verbatim>\<open>HfTrackIndexSkimsCreator::process\<close> on the selected tracks of one collision with
  primary vertex \<open>primVtx\<close>.\<close>

definition process ::
  "config \<Rightarrow> RecoDecay \<Rightarrow> DCAFitter \<Rightarrow> vec3 \<Rightarrow> track list \<Rightarrow> procState \<Rightarrow> procState" where
  "process cfg rd df primVtx tracks st =
     fold (pos1Body cfg rd df primVtx tracks) [0..<length tracks] st"

text \<open>The four output tables of a state of \<^verbatim>\<open>process\<close>.\<close>

definition tables ::
  "procState \<Rightarrow> (int \<times> int \<times> int32) list \<times> (int32 \<times> int32 \<times> int32) list
     \<times> (int \<times> int \<times> int \<times> int32) list \<times> (int32 \<times> int32 \<times> int32 \<times> int32) list" where
  "tables st =
     (rowTrackIndexProng2 st, rowProng2CutStatus st, rowTrackIndexProng3 st, rowProng3CutStatus st)"

subsection \<open>The track loops as a generator of candidate tuples\<close>

text \<open>The tuples the loops of \<^verbatim>\<open>process\<close> visit, in the order they visit them, each track
  named by its position in the table: \<open>Tuple2 pos1 neg1\<close> for a turn of the first loop
  over negative tracks, \<open>Tuple3 a b c\<close> for a turn of one of the two inner loops that
  reaches the 3-prong pre-selection.\<close>

datatype candTuple = Tuple2 nat nat | Tuple3 nat nat nat

definition pos2Tuples :: "track list \<Rightarrow> nat \<Rightarrow> nat \<Rightarrow> candTuple list" where
  "pos2Tuples tracks pos1 neg1 =
     map (Tuple3 pos1 neg1)
       (filter (\<lambda>pos2. \<not> signed1Pt (tracks ! pos2) < 0 \<and> TESTBIT (isSelProng (tracks ! pos2)) Cand3Prong)
          [pos1 + 1..<length tracks])"

definition neg2Tuples :: "track list \<Rightarrow> nat \<Rightarrow> nat \<Rightarrow> candTuple list" where
  "neg2Tuples tracks pos1 neg1 =
     map (Tuple3 neg1 pos1)
       (filter (\<lambda>neg2. \<not> signed1Pt (tracks ! neg2) > 0 \<and> TESTBIT (isSelProng (tracks ! neg2)) Cand3Prong)
          [neg1 + 1..<length tracks])"

definition neg1Tuples :: "config \<Rightarrow> track list \<Rightarrow> nat \<Rightarrow> nat \<Rightarrow> candTuple list" where
  "neg1Tuples cfg tracks pos1 neg1 =
     (if signed1Pt (tracks ! neg1) > 0 then []
      else if \<not> TESTBIT (isSelProng (tracks ! neg1)) Cand2Prong \<and> \<not> TESTBIT (isSelProng (tracks ! neg1)) Cand3Prong
      then []
      else Tuple2 pos1 neg1 #
        (if do3prong cfg = 1 \<and> TESTBIT (isSelProng (tracks ! pos1)) Cand3Prong
            \<and> TESTBIT (isSelProng (tracks ! neg1)) Cand3Prong \<and> \<not> length tracks < 2
         then pos2Tuples tracks pos1 neg1 @ neg2Tuples tracks pos1 neg1
         else []))"

definition pos1Tuples :: "config \<Rightarrow> track list \<Rightarrow> nat \<Rightarrow> candTuple list" where
  "pos1Tuples cfg tracks pos1 =
     (if signed1Pt (tracks ! pos1) < 0 then []
      else if \<not> TESTBIT (isSelProng (tracks ! pos1)) Cand2Prong \<and> \<not> TESTBIT (isSelProng (tracks ! pos1)) Cand3Prong
      then []
      else concat (map (neg1Tuples cfg tracks pos1) [0..<length tracks]))"

definition candidates :: "config \<Rightarrow> track list \<Rightarrow> candTuple list" where
  "candidates cfg tracks = concat (map (pos1Tuples cfg tracks) [0..<length tracks])"

text \<open>What \<^verbatim>\<open>process\<close> does with a tuple it visits.\<close>

fun candStep ::
  "config \<Rightarrow> RecoDecay \<Rightarrow> DCAFitter \<Rightarrow> vec3 \<Rightarrow> track list \<Rightarrow> candTuple \<Rightarrow> procState \<Rightarrow> procState" where
  "candStep cfg rd df primVtx tracks (Tuple2 pos1 neg1) st =
     prong2Step cfg rd df primVtx (tracks ! pos1) (tracks ! neg1) st"
| "candStep cfg rd df primVtx tracks (Tuple3 a b c) st =
     prong3Step cfg rd df primVtx (tracks ! a) (tracks ! b) (tracks ! c) st"

text \<open>What the vertex fitter returned for a tuple.\<close>

fun fitOf :: "DCAFitter \<Rightarrow> track list \<Rightarrow> candTuple \<Rightarrow> fitResult" where
  "fitOf df tracks (Tuple2 pos1 neg1) = df2_process df (tracks ! pos1) (tracks ! neg1)"
| "fitOf df tracks (Tuple3 a b c) = df3_process df (tracks ! a) (tracks ! b) (tracks ! c)"

subsection \<open>Example data\<close>

text \<open>A configuration with two pT bins, \<open>[0, 1)\<close> and \<open>[1, 10)\<close>, for every channel: the
  first bin with a mass window, the second with every cut disabled. The example tracks fly
  along the x axis, where the transverse momentum of a sum of momenta is the absolute value
  of the sum of the x components; the combined momentum is the sum of the momenta. The
  squared mass, the pointing angle and the decay length are stand-ins: the first mass of
  the assignment, 0 and 1.\<close>

definition exRow0 :: cutRow where
  "exRow0 = \<lparr>massMin = 1, massMax = 2, d0d0 = 1 / 1000, cosp = 1 / 2, decL = 1 / 100\<rparr>"

definition exRow1 :: cutRow where
  "exRow1 = \<lparr>massMin = - 1, massMax = 2, d0d0 = 1, cosp = - 1, decL = 0\<rparr>"

definition exCfg :: "bool \<Rightarrow> config" where
  "exCfg dbg = \<lparr>debug = dbg, do3prong = 1, pTTolerance = 1 / 10,
     pTBins2Prong = (\<lambda>i. [0, 1, 10]),
     cut2Prong = (\<lambda>i b. if b = 0 then exRow0 else exRow1),
     pTBins3Prong = (\<lambda>i. [0, 1, 10]),
     cut3Prong = (\<lambda>i b. if b = 0 then exRow0 else exRow1)\<rparr>"

definition exRd :: RecoDecay where
  "exRd = \<lparr>RecoDecay_Pt = (\<lambda>vs. \<bar>sum_list (map fst vs)\<bar>), RecoDecay_M2 = (\<lambda>vs ms. hd ms),
     RecoDecay_CPA = (\<lambda>pv sv p. 0), RecoDecay_distance = (\<lambda>pv sv. 1),
     RecoDecay_PVec = (\<lambda>vs. (sum_list (map fst vs), sum_list (map (\<lambda>v. fst (snd v)) vs),
                              sum_list (map (\<lambda>v. snd (snd v)) vs))),
     massPi = 1, massK = 4, massProton = 9, massElectron = 1 / 4, massMuon = 1 / 2\<rparr>"

definition exTrack :: "int \<Rightarrow> real \<Rightarrow> real \<Rightarrow> track" where
  "exTrack idx q px = \<lparr>globalIndex = idx, signed1Pt = q, isSelProng = 7,
     pxProng = px, pyProng = 0, pzProng = 0, dcaXY = 0\<rparr>"

definition exSel :: selState where
  "exSel = \<lparr>cutStatus = (\<lambda>i k. True), whichHypo = (\<lambda>i. 5), isSelected = 7\<rparr>"

definition exSel0 :: selState where
  "exSel0 = \<lparr>cutStatus = (\<lambda>i k. True), whichHypo = (\<lambda>i. 0), isSelected = 7\<rparr>"

text \<open>A vertex fitter that finds \<open>n\<close> vertices for every tuple, at the origin and with the
  momenta the tracks came with; and an empty state of \<^verbatim>\<open>process\<close>.\<close>

definition exDf :: "int \<Rightarrow> DCAFitter" where
  "exDf n =
     \<lparr>df2_process = (\<lambda>a b. \<lparr>nVtx = n, PCACandidate = (0, 0, 0),
                              trackMom = (\<lambda>i. if i = 0 then mom a else mom b)\<rparr>),
      df3_process = (\<lambda>a b c. \<lparr>nVtx = n, PCACandidate = (0, 0, 0),
                                trackMom = (\<lambda>i. if i = 0 then mom a else if i = 1 then mom b else mom c)\<rparr>)\<rparr>"

definition exSt :: procState where
  "exSt = \<lparr>rowTrackIndexProng2 = [], rowProng2CutStatus = [],
           rowTrackIndexProng3 = [], rowProng3CutStatus = [],
           cutStatus2Prong = (\<lambda>i k. True), cutStatus3Prong = (\<lambda>i k. True),
           whichHypo2Prong = (\<lambda>i. 0), whichHypo3Prong = (\<lambda>i. 0)\<rparr>"

section \<open>Auxiliary facts\<close>

subsection \<open>Bits\<close>

lemma TESTBIT_iff: "TESTBIT n i \<longleftrightarrow> bit n i"
  unfolding TESTBIT_def BIT_def
  by (simp add: and_exp_eq_0_iff_not_bit)

lemma bit_CLRBIT: "bit (CLRBIT w j) i \<longleftrightarrow> bit w i \<and> i \<noteq> j"
  unfolding CLRBIT_def BIT_def
  by (auto simp add: bit_and_iff bit_not_iff bit_push_bit_iff bit_1_iff bit_exp_iff dest: bit_imp_le_length)

subsection \<open>The pT-bin lookup\<close>

lemma findBinFrom_inside:
  "0 \<le> i \<Longrightarrow> findBinFrom i es v \<noteq> - 1 \<Longrightarrow>
     i \<le> findBinFrom i es v \<and> nat (findBinFrom i es v - i) + 1 < length es \<and>
     es ! nat (findBinFrom i es v - i) \<le> v \<and> v < es ! (nat (findBinFrom i es v - i) + 1)"
proof (induction i es v rule: findBinFrom.induct)
  case (1 i a b es v)
  show ?case
  proof (cases "a \<le> v \<and> v < b")
    case True
    then show ?thesis by simp
  next
    case False
    with 1 have ih: "i + 1 \<le> findBinFrom (i + 1) (b # es) v \<and>
        nat (findBinFrom (i + 1) (b # es) v - (i + 1)) + 1 < length (b # es) \<and>
        (b # es) ! nat (findBinFrom (i + 1) (b # es) v - (i + 1)) \<le> v \<and>
        v < (b # es) ! (nat (findBinFrom (i + 1) (b # es) v - (i + 1)) + 1)"
      by simp
    define r where "r = findBinFrom (i + 1) (b # es) v"
    have eq: "findBinFrom i (a # b # es) v = r" using False by (auto simp: r_def)
    from ih have le: "i + 1 \<le> r" by (simp add: r_def)
    then have n: "nat (r - i) = Suc (nat (r - (i + 1)))" by simp
    show ?thesis using ih le unfolding eq n r_def[symmetric] by simp
  qed
qed simp_all

lemma sorted_head_le_last: "sorted_wrt (<) (b # es) \<Longrightarrow> (b::real) \<le> last (b # es)"
proof (induction es arbitrary: b)
  case Nil
  then show ?case by simp
next
  case (Cons a es)
  from Cons.prems have "b < a" and "sorted_wrt (<) (a # es)" by simp_all
  with Cons.IH[of a] show ?case by simp
qed

lemma findBinFrom_sentinel:
  "0 \<le> i \<Longrightarrow> sorted_wrt (<) es \<Longrightarrow> es \<noteq> [] \<Longrightarrow>
     (findBinFrom i es v = - 1 \<longleftrightarrow> v < hd es \<or> v \<ge> last es)"
proof (induction i es v rule: findBinFrom.induct)
  case (1 i a b es v)
  have ab: "a < b" using 1(3) by simp
  have bl: "b \<le> last (b # es)" using 1(3) sorted_head_le_last[of b es] by simp
  show ?case
  proof (cases "a \<le> v \<and> v < b")
    case True
    then show ?thesis using 1(2) bl by auto
  next
    case False
    with 1 have ih: "findBinFrom (i + 1) (b # es) v = - 1 \<longleftrightarrow> v < b \<or> v \<ge> last (b # es)"
      by simp
    show ?thesis using False ih ab by auto
  qed
qed auto

lemma findBinFrom_mono:
  "0 \<le> i \<Longrightarrow> sorted_wrt (<) es \<Longrightarrow> v \<le> v' \<Longrightarrow> findBinFrom i es v' \<noteq> - 1 \<Longrightarrow>
     findBinFrom i es v \<le> findBinFrom i es v'"
proof (induction i es v arbitrary: v' rule: findBinFrom.induct)
  case (1 i a b es v)
  have ab: "a < b" using 1(3) by simp
  have srt: "sorted_wrt (<) (b # es)" using 1(3) by simp
  show ?case
  proof (cases "a \<le> v' \<and> v' < b")
    case True
    show ?thesis
    proof (cases "a \<le> v \<and> v < b")
      case True
      then show ?thesis using \<open>a \<le> v' \<and> v' < b\<close> by simp
    next
      case False
      then have "v < hd (b # es)" using True 1(4) ab by auto
      then have "findBinFrom (i + 1) (b # es) v = - 1"
        using findBinFrom_sentinel[of "i + 1" "b # es" v] srt 1(2) by simp
      then show ?thesis using True False 1(2) by simp
    qed
  next
    case False
    then have r': "findBinFrom i (a # b # es) v' = findBinFrom (i + 1) (b # es) v'" by auto
    with 1(5) have ne: "findBinFrom (i + 1) (b # es) v' \<noteq> - 1" by simp
    have lo: "i + 1 \<le> findBinFrom (i + 1) (b # es) v'"
      using findBinFrom_inside[of "i + 1" "b # es" v'] ne 1(2) by simp
    show ?thesis
    proof (cases "a \<le> v \<and> v < b")
      case True
      then show ?thesis using r' lo by simp
    next
      case F2: False
      have "findBinFrom (i + 1) (b # es) v \<le> findBinFrom (i + 1) (b # es) v'"
        using 1(1)[OF F2 _ srt 1(4) ne] 1(2) by simp
      then show ?thesis using F2 r' by auto
    qed
  qed
qed simp_all

lemma findBin_unique:
  assumes "sorted_wrt (<) es" "j + 1 < length es" "es ! j \<le> v" "v < es ! (j + 1)"
  shows "findBin es v = int j"
proof -
  have ne: "es \<noteq> []" using assms(2) by auto
  have hd: "hd es \<le> es ! j"
  proof (cases "j = 0")
    case True then show ?thesis using ne by (simp add: hd_conv_nth)
  next
    case False
    then have "es ! 0 < es ! j" using assms(1,2) by (simp add: sorted_wrt_iff_nth_less)
    then show ?thesis using ne by (simp add: hd_conv_nth)
  qed
  have lst: "es ! (j + 1) \<le> last es"
  proof (cases "j + 1 = length es - 1")
    case True then show ?thesis using ne by (simp add: last_conv_nth)
  next
    case False
    then have "es ! (j + 1) < es ! (length es - 1)" using assms(1,2) by (simp add: sorted_wrt_iff_nth_less)
    then show ?thesis using ne by (simp add: last_conv_nth)
  qed
  have "findBinFrom 0 es v \<noteq> - 1"
    using findBinFrom_sentinel[of 0 es v] assms ne hd lst by auto
  then have ins: "0 \<le> findBinFrom 0 es v \<and> nat (findBinFrom 0 es v) + 1 < length es \<and>
     es ! nat (findBinFrom 0 es v) \<le> v \<and> v < es ! (nat (findBinFrom 0 es v) + 1)"
    using findBinFrom_inside[of 0 es v] by simp
  define r where "r = nat (findBinFrom 0 es v)"
  have rj: "r = j"
  proof (rule ccontr)
    assume "r \<noteq> j"
    then consider "r < j" | "j < r" by linarith
    then show False
    proof cases
      case 1
      have "es ! (r + 1) \<le> es ! j"
      proof (cases "r + 1 = j")
        case True then show ?thesis by simp
      next
        case False
        with 1 have "r + 1 < j" by simp
        then have "es ! (r + 1) < es ! j" using assms(1,2) sorted_wrt_nth_less[of "(<)" es "r + 1" j] by simp
        then show ?thesis by simp
      qed
      then show False using ins assms(3) by (simp add: r_def)
    next
      case 2
      have rl: "r < length es" using ins by (simp add: r_def)
      have "es ! (j + 1) \<le> es ! r"
      proof (cases "j + 1 = r")
        case True then show ?thesis by simp
      next
        case False
        with 2 have "j + 1 < r" by simp
        then have "es ! (j + 1) < es ! r" using assms(1) rl sorted_wrt_nth_less[of "(<)" es "j + 1" r] by simp
        then show ?thesis by simp
      qed
      then show False using ins assms(4) by (simp add: r_def)
    qed
  qed
  from ins have "int (nat (findBinFrom 0 es v)) = findBinFrom 0 es v" by simp
  with rj show ?thesis by (simp add: findBin_def r_def)
qed

subsection \<open>The channels of a selection state\<close>

lemma decays2: "[0..<n2ProngDecays] = [0, 1, 2]"
  by (simp add: n2ProngDecays_def upt_rec)

lemma decays3: "[0..<n3ProngDecays] = [0, 1, 2, 3]"
  by (simp add: n3ProngDecays_def upt_rec)

lemma fold_chan:
  assumes other: "\<And>i j s. i \<noteq> j \<Longrightarrow> chan i (f j s) = chan i s"
    and cong: "\<And>j s s'. chan j s = chan j s' \<Longrightarrow> chan j (f j s) = chan j (f j s')"
    and dist: "distinct xs"
  shows "chan i (fold f xs s) = (if i \<in> set xs then chan i (f i s) else chan i s)"
  using dist
proof (induction xs arbitrary: s)
  case Nil
  then show ?case by simp
next
  case (Cons x xs)
  then have ih: "chan i (fold f xs (f x s)) = (if i \<in> set xs then chan i (f i (f x s)) else chan i (f x s))"
    by simp
  show ?case
  proof (cases "i = x")
    case True
    then show ?thesis using ih Cons.prems by simp
  next
    case False
    then have "chan i (f x s) = chan i s" by (rule other)
    then show ?thesis using ih False cong[of i "f x s" s] by simp
  qed
qed

lemma chan_rejectAt:
  "chan i (rejectAt dbg j k s) =
     (if i = j then ((if dbg then (cutStatus s j)(k := False) else cutStatus s j), whichHypo s j, False)
      else chan i s)"
  by (simp add: chan_def rejectAt_def TESTBIT_iff bit_CLRBIT)

lemma chan_massStage_other: "i \<noteq> j \<Longrightarrow> chan i (massStage dbg j row m0 m1 s) = chan i s"
  by (simp add: chan_def massStage_def rejectAt_def Let_def TESTBIT_iff bit_CLRBIT)

lemma chan_massStage:
  "chan j (massStage dbg j row m0 m1 s) =
     (if (dbg \<or> TESTBIT (isSelected s) j) \<and> 0 \<le> massMin row \<and> 0 < massMax row then
        (let w = (if (massMin row)\<^sup>2 \<le> m0 \<and> m0 < (massMax row)\<^sup>2 then 1 else 0)
               + (if (massMin row)\<^sup>2 \<le> m1 \<and> m1 < (massMax row)\<^sup>2 then 2 else 0)
         in if w = 0 then ((if dbg then (cutStatus s j)(1 := False) else cutStatus s j), 0, False)
            else (cutStatus s j, w, TESTBIT (isSelected s) j))
      else (cutStatus s j, 3, TESTBIT (isSelected s) j))"
  by (simp add: chan_def massStage_def rejectAt_def Let_def TESTBIT_iff bit_CLRBIT not_le not_less)

lemma chan_impParStage:
  "chan i (impParStage dbg j row ipp s) =
     (if i = j \<and> (dbg \<or> TESTBIT (isSelected s) j) \<and> d0d0 row < ipp
      then ((if dbg then (cutStatus s j)(2 := False) else cutStatus s j), whichHypo s j, False)
      else chan i s)"
  by (simp add: impParStage_def chan_rejectAt)

lemma chan_cospStage:
  "chan i (cospStage dbg j k row cpa s) =
     (if i = j \<and> (dbg \<or> TESTBIT (isSelected s) j) \<and> cpa < cosp row
      then ((if dbg then (cutStatus s j)(k := False) else cutStatus s j), whichHypo s j, False)
      else chan i s)"
  by (simp add: cospStage_def chan_rejectAt)

lemma chan_decLStage:
  "chan i (decLStage dbg j row len s) =
     (if i = j \<and> (dbg \<or> TESTBIT (isSelected s) j) \<and> len < decL row
      then ((if dbg then (cutStatus s j)(3 := False) else cutStatus s j), whichHypo s j, False)
      else chan i s)"
  by (simp add: decLStage_def chan_rejectAt)

lemma chan_eqD:
  "chan j s = chan j s' \<Longrightarrow>
     cutStatus s j = cutStatus s' j \<and> whichHypo s j = whichHypo s' j \<and>
     TESTBIT (isSelected s) j = TESTBIT (isSelected s') j"
  by (simp add: chan_def)

lemma rejectAt_cong:
  "chan j s = chan j s' \<Longrightarrow> chan j (rejectAt dbg j k s) = chan j (rejectAt dbg j k s')"
  by (drule chan_eqD) (simp add: chan_rejectAt)

lemma massStage_cong:
  "chan j s = chan j s' \<Longrightarrow> chan j (massStage dbg j row m0 m1 s) = chan j (massStage dbg j row m0 m1 s')"
  by (drule chan_eqD) (simp only: chan_massStage)

lemma impParStage_cong:
  "chan j s = chan j s' \<Longrightarrow> chan j (impParStage dbg j row ipp s) = chan j (impParStage dbg j row ipp s')"
  by (frule chan_eqD) (simp add: chan_impParStage)

lemma cospStage_cong:
  "chan j s = chan j s' \<Longrightarrow> chan j (cospStage dbg j k row cpa s) = chan j (cospStage dbg j k row cpa s')"
  by (frule chan_eqD) (simp add: chan_cospStage)

lemma decLStage_cong:
  "chan j s = chan j s' \<Longrightarrow> chan j (decLStage dbg j row len s) = chan j (decLStage dbg j row len s')"
  by (frule chan_eqD) (simp add: chan_decLStage)

lemma presel2Decay_other:
  "i \<noteq> j \<Longrightarrow> chan i (presel2Decay cfg rd t0 t1 j s) = chan i s"
  by (simp add: presel2Decay_def Let_def chan_rejectAt chan_impParStage chan_massStage_other)

lemma presel2Decay_cong:
  "chan j s = chan j s' \<Longrightarrow>
     chan j (presel2Decay cfg rd t0 t1 j s) = chan j (presel2Decay cfg rd t0 t1 j s')"
  unfolding presel2Decay_def Let_def
  by (auto intro!: rejectAt_cong impParStage_cong massStage_cong)

lemma presel3Decay_other:
  "i \<noteq> j \<Longrightarrow> chan i (presel3Decay cfg rd t0 t1 t2 j s) = chan i s"
  by (simp add: presel3Decay_def Let_def chan_rejectAt chan_massStage_other)

lemma presel3Decay_cong:
  "chan j s = chan j s' \<Longrightarrow>
     chan j (presel3Decay cfg rd t0 t1 t2 j s) = chan j (presel3Decay cfg rd t0 t1 t2 j s')"
  unfolding presel3Decay_def Let_def
  by (auto intro!: rejectAt_cong massStage_cong)

lemma sel2Decay_other:
  "i \<noteq> j \<Longrightarrow> chan i (sel2Decay cfg rd p v pv j s) = chan i s"
  by (simp add: sel2Decay_def Let_def chan_rejectAt chan_cospStage)

lemma sel2Decay_cong:
  "chan j s = chan j s' \<Longrightarrow> chan j (sel2Decay cfg rd p v pv j s) = chan j (sel2Decay cfg rd p v pv j s')"
  unfolding sel2Decay_def Let_def
  by (auto intro!: rejectAt_cong cospStage_cong)

lemma sel3Decay_other:
  "i \<noteq> j \<Longrightarrow> chan i (sel3Decay cfg rd p v pv j s) = chan i s"
  by (simp add: sel3Decay_def Let_def chan_rejectAt chan_cospStage chan_decLStage)

lemma sel3Decay_cong:
  "chan j s = chan j s' \<Longrightarrow> chan j (sel3Decay cfg rd p v pv j s) = chan j (sel3Decay cfg rd p v pv j s')"
  unfolding sel3Decay_def Let_def
  by (auto intro!: rejectAt_cong cospStage_cong decLStage_cong)

lemma chan_is2ProngPreselected:
  "chan i (is2ProngPreselected cfg rd t0 t1 s) =
     (if i < n2ProngDecays then chan i (presel2Decay cfg rd t0 t1 i s) else chan i s)"
  using fold_chan[of "presel2Decay cfg rd t0 t1" "[0..<n2ProngDecays]" i s,
      OF presel2Decay_other presel2Decay_cong]
  by (simp add: is2ProngPreselected_def)

lemma chan_is3ProngPreselected:
  "chan i (is3ProngPreselected cfg rd t0 t1 t2 s) =
     (if i < n3ProngDecays then chan i (presel3Decay cfg rd t0 t1 t2 i s) else chan i s)"
  using fold_chan[of "presel3Decay cfg rd t0 t1 t2" "[0..<n3ProngDecays]" i s,
      OF presel3Decay_other presel3Decay_cong]
  by (simp add: is3ProngPreselected_def)

lemma chan_is2ProngSelected:
  "chan i (is2ProngSelected cfg rd p v pv s) =
     (if (debug cfg \<or> 0 <s isSelected s) \<and> i < n2ProngDecays
      then chan i (sel2Decay cfg rd p v pv i s) else chan i s)"
  using fold_chan[of "sel2Decay cfg rd p v pv" "[0..<n2ProngDecays]" i s,
      OF sel2Decay_other sel2Decay_cong]
  by (simp add: is2ProngSelected_def)

lemma chan_is3ProngSelected:
  "chan i (is3ProngSelected cfg rd p v pv s) =
     (if (debug cfg \<or> 0 <s isSelected s) \<and> i < n3ProngDecays
      then chan i (sel3Decay cfg rd p v pv i s) else chan i s)"
  using fold_chan[of "sel3Decay cfg rd p v pv" "[0..<n3ProngDecays]" i s,
      OF sel3Decay_other sel3Decay_cong]
  by (simp add: is3ProngSelected_def)

subsection \<open>Bits are only ever cleared\<close>

lemma testbit_chan: "TESTBIT (isSelected s) i = snd (snd (chan i s))"
  by (simp add: chan_def)

lemma whichHypo_chan: "whichHypo s i = fst (snd (chan i s))"
  by (simp add: chan_def)

lemma cutStatus_chan: "cutStatus s i = fst (chan i s)"
  by (simp add: chan_def)

lemma n2ProngBit_bits: "TESTBIT n2ProngBit i \<longleftrightarrow> i < n2ProngDecays"
proof -
  have eq: "n2ProngBit = mask 3"
    by (simp add: n2ProngBit_def BIT_def n2ProngDecays_def mask_eq_exp_minus_1)
  show ?thesis unfolding eq by (auto simp add: TESTBIT_iff bit_mask_iff n2ProngDecays_def)
qed

lemma n3ProngBit_bits: "TESTBIT n3ProngBit i \<longleftrightarrow> i < n3ProngDecays"
proof -
  have eq: "n3ProngBit = mask 4"
    by (simp add: n3ProngBit_def BIT_def n3ProngDecays_def mask_eq_exp_minus_1)
  show ?thesis unfolding eq by (auto simp add: TESTBIT_iff bit_mask_iff n3ProngDecays_def)
qed

lemma rejectAt_bit: "TESTBIT (isSelected (rejectAt dbg j k s)) i \<longleftrightarrow> TESTBIT (isSelected s) i \<and> i \<noteq> j"
  by (simp add: rejectAt_def TESTBIT_iff bit_CLRBIT)

lemma massStage_bit_le: "TESTBIT (isSelected (massStage dbg j row m0 m1 s)) i \<Longrightarrow> TESTBIT (isSelected s) i"
  by (cases "i = j") (simp_all add: testbit_chan chan_massStage chan_massStage_other Let_def split: if_splits)

lemma impParStage_bit_le: "TESTBIT (isSelected (impParStage dbg j row ipp s)) i \<Longrightarrow> TESTBIT (isSelected s) i"
  by (simp add: impParStage_def rejectAt_bit split: if_splits)

lemma cospStage_bit_le: "TESTBIT (isSelected (cospStage dbg j k row cpa s)) i \<Longrightarrow> TESTBIT (isSelected s) i"
  by (simp add: cospStage_def rejectAt_bit split: if_splits)

lemma decLStage_bit_le: "TESTBIT (isSelected (decLStage dbg j row len s)) i \<Longrightarrow> TESTBIT (isSelected s) i"
  by (simp add: decLStage_def rejectAt_bit split: if_splits)

lemma presel2Decay_bit_le:
  "TESTBIT (isSelected (presel2Decay cfg rd t0 t1 j s)) i \<Longrightarrow> TESTBIT (isSelected s) i"
  unfolding presel2Decay_def Let_def
  by (auto simp: rejectAt_bit split: if_splits dest!: impParStage_bit_le massStage_bit_le)

lemma presel3Decay_bit_le:
  "TESTBIT (isSelected (presel3Decay cfg rd t0 t1 t2 j s)) i \<Longrightarrow> TESTBIT (isSelected s) i"
  unfolding presel3Decay_def Let_def
  by (auto simp: rejectAt_bit split: if_splits dest!: massStage_bit_le)

lemma sel2Decay_bit_le:
  "TESTBIT (isSelected (sel2Decay cfg rd p v pv j s)) i \<Longrightarrow> TESTBIT (isSelected s) i"
  unfolding sel2Decay_def Let_def
  by (auto simp: rejectAt_bit split: if_splits dest!: cospStage_bit_le)

lemma sel3Decay_bit_le:
  "TESTBIT (isSelected (sel3Decay cfg rd p v pv j s)) i \<Longrightarrow> TESTBIT (isSelected s) i"
  unfolding sel3Decay_def Let_def
  by (auto simp: rejectAt_bit split: if_splits dest!: decLStage_bit_le cospStage_bit_le)

lemma fold_bit_le:
  assumes "\<And>j s. TESTBIT (isSelected (f j s)) i \<Longrightarrow> TESTBIT (isSelected s) i"
  shows "TESTBIT (isSelected (fold f xs s)) i \<Longrightarrow> TESTBIT (isSelected s) i"
proof (induction xs arbitrary: s)
  case Nil
  then show ?case by simp
next
  case (Cons x xs)
  then have "TESTBIT (isSelected (f x s)) i" by simp
  then show ?case by (rule assms)
qed

lemma is2ProngPreselected_bit_le:
  "TESTBIT (isSelected (is2ProngPreselected cfg rd t0 t1 s)) i \<Longrightarrow> TESTBIT (isSelected s) i"
  unfolding is2ProngPreselected_def by (erule fold_bit_le[rotated]) (rule presel2Decay_bit_le)

lemma is3ProngPreselected_bit_le:
  "TESTBIT (isSelected (is3ProngPreselected cfg rd t0 t1 t2 s)) i \<Longrightarrow> TESTBIT (isSelected s) i"
  unfolding is3ProngPreselected_def by (erule fold_bit_le[rotated]) (rule presel3Decay_bit_le)

lemma is2ProngSelected_bit_le:
  "TESTBIT (isSelected (is2ProngSelected cfg rd p v pv s)) i \<Longrightarrow> TESTBIT (isSelected s) i"
  unfolding is2ProngSelected_def
  by (cases "debug cfg \<or> 0 <s isSelected s")
     (auto elim!: fold_bit_le[rotated] sel2Decay_bit_le)

lemma is3ProngSelected_bit_le:
  "TESTBIT (isSelected (is3ProngSelected cfg rd p v pv s)) i \<Longrightarrow> TESTBIT (isSelected s) i"
  unfolding is3ProngSelected_def
  by (cases "debug cfg \<or> 0 <s isSelected s")
     (auto elim!: fold_bit_le[rotated] sel3Decay_bit_le)

subsection \<open>The debug matrix\<close>



subsection \<open>What the 2-prong pre-selection reads of the incoming state\<close>

lemma chan_presel2Decay_found:
  assumes "findBin (pTBins2Prong cfg j) (preselPt cfg rd [mom ta, mom tb]) \<noteq> - 1"
    and "TESTBIT (isSelected s) j = TESTBIT (isSelected s') j"
  shows "snd (chan j (presel2Decay cfg rd ta tb j s)) = snd (chan j (presel2Decay cfg rd ta tb j s'))"
  using assms
  by (simp add: presel2Decay_def Let_def chan_impParStage testbit_chan[of "massStage _ _ _ _ _ _"]
      whichHypo_chan[of "massStage _ _ _ _ _ _"] chan_massStage)

lemma chan_presel2Decay_bit:
  assumes "TESTBIT (isSelected s) j = TESTBIT (isSelected s') j"
  shows "snd (snd (chan j (presel2Decay cfg rd ta tb j s)))
       = snd (snd (chan j (presel2Decay cfg rd ta tb j s')))"
proof (cases "findBin (pTBins2Prong cfg j) (preselPt cfg rd [mom ta, mom tb]) = - 1")
  case True
  then show ?thesis by (simp add: presel2Decay_def chan_rejectAt)
next
  case False
  then show ?thesis using chan_presel2Decay_found[OF False assms] by simp
qed

subsection \<open>The loops of \<^verbatim>\<open>process\<close> visit the generated tuples in order\<close>

lemma fold_concat_map: "fold f (concat (map g xs)) s = fold (\<lambda>x. fold f (g x)) xs s"
  by (induction xs arbitrary: s) simp_all

lemma fold_map_filter:
  "fold f (map h (filter P xs)) s = fold (\<lambda>x s. if P x then f (h x) s else s) xs s"
  by (induction xs arbitrary: s) simp_all

lemma pos2Loop_tuples:
  "pos2Loop cfg rd df primVtx tracks pos1 neg1 st
     = fold (candStep cfg rd df primVtx tracks) (pos2Tuples tracks pos1 neg1) st"
  unfolding pos2Loop_def pos2Tuples_def fold_map_filter
  by (rule arg_cong[where f = "\<lambda>f. fold f _ st"]) (auto simp: fun_eq_iff)

lemma neg2Loop_tuples:
  "neg2Loop cfg rd df primVtx tracks pos1 neg1 st
     = fold (candStep cfg rd df primVtx tracks) (neg2Tuples tracks pos1 neg1) st"
  unfolding neg2Loop_def neg2Tuples_def fold_map_filter
  by (rule arg_cong[where f = "\<lambda>f. fold f _ st"]) (auto simp: fun_eq_iff)

lemma neg1Body_tuples:
  "neg1Body cfg rd df primVtx tracks pos1 neg1 st
     = fold (candStep cfg rd df primVtx tracks) (neg1Tuples cfg tracks pos1 neg1) st"
  by (simp add: neg1Body_def neg1Tuples_def Let_def pos2Loop_tuples neg2Loop_tuples)

lemma pos1Body_tuples:
  "pos1Body cfg rd df primVtx tracks pos1 st
     = fold (candStep cfg rd df primVtx tracks) (pos1Tuples cfg tracks pos1) st"
proof -
  have "neg1Body cfg rd df primVtx tracks pos1
      = (\<lambda>neg1. fold (candStep cfg rd df primVtx tracks) (neg1Tuples cfg tracks pos1 neg1))"
    by (simp add: fun_eq_iff neg1Body_tuples)
  then show ?thesis
    by (simp add: pos1Body_def pos1Tuples_def Let_def fold_concat_map)
qed

lemma process_candidates:
  "process cfg rd df primVtx tracks st
     = fold (candStep cfg rd df primVtx tracks) (candidates cfg tracks) st"
proof -
  have "pos1Body cfg rd df primVtx tracks
      = (\<lambda>pos1. fold (candStep cfg rd df primVtx tracks) (pos1Tuples cfg tracks pos1))"
    by (simp add: fun_eq_iff pos1Body_tuples)
  then show ?thesis
    by (simp add: process_def candidates_def fold_concat_map)
qed

subsection \<open>A failed vertex fit\<close>

lemma prong2Step_fit_failed:
  "nVtx (df2_process df ta tb) = 0 \<Longrightarrow> tables (prong2Step cfg rd df primVtx ta tb st) = tables st"
  by (simp add: prong2Step_def tables_def Let_def)

lemma prong3Step_fit_failed:
  "nVtx (df3_process df ta tb tc) = 0 \<Longrightarrow> tables (prong3Step cfg rd df primVtx ta tb tc st) = tables st"
  by (simp add: prong3Step_def tables_def Let_def)

lemma candStep_fit_failed:
  "nVtx (fitOf df tracks t) = 0 \<Longrightarrow> tables (candStep cfg rd df primVtx tracks t st) = tables st"
  by (cases t) (simp_all add: prong2Step_fit_failed prong3Step_fit_failed)

lemma fold_candStep_fit_failed:
  "\<forall>t \<in> set ts. nVtx (fitOf df tracks t) = 0 \<Longrightarrow>
     tables (fold (candStep cfg rd df primVtx tracks) ts st) = tables st"
proof (induction ts arbitrary: st)
  case Nil
  then show ?case by simp
next
  case (Cons t ts)
  then have "tables (fold (candStep cfg rd df primVtx tracks) ts (candStep cfg rd df primVtx tracks t st))
      = tables (candStep cfg rd df primVtx tracks t st)"
    by simp
  also have "\<dots> = tables st" using Cons.prems by (simp add: candStep_fit_failed)
  finally show ?case by simp
qed

subsection \<open>The example data\<close>

lemma exTrack_simps:
  "globalIndex (exTrack i q p) = i" "signed1Pt (exTrack i q p) = q"
  "mom (exTrack i q p) = (p, 0, 0)" "dcaXY (exTrack i q p) = 0"
  "TESTBIT (isSelProng (exTrack i q p)) Cand2Prong" "TESTBIT (isSelProng (exTrack i q p)) Cand3Prong"
  by (simp_all add: exTrack_def mom_def TESTBIT_def BIT_def Cand2Prong_def Cand3Prong_def)

lemma exCfg_simps:
  "debug (exCfg d) = d" "do3prong (exCfg d) = 1" "pTTolerance (exCfg d) = 1 / 10"
  "pTBins2Prong (exCfg d) i = [0, 1, 10]" "pTBins3Prong (exCfg d) i = [0, 1, 10]"
  "cut2Prong (exCfg d) i b = (if b = 0 then exRow0 else exRow1)"
  "cut3Prong (exCfg d) i b = (if b = 0 then exRow0 else exRow1)"
  by (simp_all add: exCfg_def)

lemma exRd_simps:
  "RecoDecay_Pt exRd vs = \<bar>sum_list (map fst vs)\<bar>" "RecoDecay_M2 exRd vs ms = hd ms"
  "RecoDecay_CPA exRd pv sv p = 0" "RecoDecay_distance exRd pv sv = 1"
  "RecoDecay_PVec exRd vs = (sum_list (map fst vs), sum_list (map (\<lambda>v. fst (snd v)) vs),
                            sum_list (map (\<lambda>v. snd (snd v)) vs))"
  by (simp_all add: exRd_def)

lemma exDf_simps:
  "nVtx (df2_process (exDf n) a b) = n" "PCACandidate (df2_process (exDf n) a b) = (0, 0, 0)"
  "trackMom (df2_process (exDf n) a b) i = (if i = 0 then mom a else mom b)"
  "nVtx (df3_process (exDf n) a b c) = n" "PCACandidate (df3_process (exDf n) a b c) = (0, 0, 0)"
  "trackMom (df3_process (exDf n) a b c) i = (if i = 0 then mom a else if i = 1 then mom b else mom c)"
  by (simp_all add: exDf_def)

lemma ex_mask_values: "n2ProngBit = 7" "n3ProngBit = 15" "nCutStatus2ProngBit = 15" "nCutStatus3ProngBit = 15"
  by (simp_all add: n2ProngBit_def n3ProngBit_def nCutStatus2ProngBit_def nCutStatus3ProngBit_def
      BIT_def n2ProngDecays_def n3ProngDecays_def nCuts2Prong_def nCuts3Prong_def)

lemma resetCutStatus_all_true: "resetCutStatus a b (\<lambda>i k. True) = (\<lambda>i k. True)"
  by (simp add: resetCutStatus_def)

lemma exSt_simps:
  "rowTrackIndexProng2 exSt = []" "rowProng2CutStatus exSt = []"
  "rowTrackIndexProng3 exSt = []" "rowProng3CutStatus exSt = []"
  "cutStatus2Prong exSt = (\<lambda>i k. True)" "cutStatus3Prong exSt = (\<lambda>i k. True)"
  "whichHypo2Prong exSt = (\<lambda>i. 0)" "whichHypo3Prong exSt = (\<lambda>i. 0)"
  by (simp_all add: exSt_def)

text \<open>A pair in the second pT bin of the example configuration passes every 2-prong cut,
  before and after the vertex fit.\<close>

lemma ex_presel2_all_pass:
  "9 / 10 \<le> p + p' \<Longrightarrow> p + p' < 99 / 10 \<Longrightarrow>
     isSelected (is2ProngPreselected (exCfg d) exRd (exTrack i q p) (exTrack i' q' p') s) = isSelected s"
  by (simp add: is2ProngPreselected_def decays2 presel2Decay_def Let_def massStage_def
      impParStage_def exCfg_simps exRd_simps exTrack_simps exRow1_def preselPt_def findBin_def)

lemma ex_sel2_all_pass:
  "1 \<le> p \<Longrightarrow> p < 10 \<Longrightarrow>
     isSelected (is2ProngSelected (exCfg d) exRd (p, 0, 0) v pv s) = isSelected s"
  by (simp add: is2ProngSelected_def decays2 sel2Decay_def Let_def cospStage_def
      exCfg_simps exRd_simps exRow1_def findBin_def)

subsection \<open>Rows of the 2-prong index table\<close>

lemma prong2Step_rows:
  "rowTrackIndexProng2 (prong2Step cfg rd df primVtx ta tb st) = rowTrackIndexProng2 st
   \<or> (\<exists>m. m \<noteq> 0 \<and> rowTrackIndexProng2 (prong2Step cfg rd df primVtx ta tb st)
          = rowTrackIndexProng2 st @ [(globalIndex ta, globalIndex tb, m)])"
  by (auto simp: prong2Step_def Let_def word_sless_alt)

lemma prong3Step_rows2:
  "rowTrackIndexProng2 (prong3Step cfg rd df primVtx ta tb tc st) = rowTrackIndexProng2 st"
  by (simp add: prong3Step_def Let_def)

lemma candStep_rows2_nonzero:
  assumes "\<forall>r \<in> set (rowTrackIndexProng2 st). snd (snd r) \<noteq> 0"
  shows "\<forall>r \<in> set (rowTrackIndexProng2 (candStep cfg rd df primVtx tracks t st)). snd (snd r) \<noteq> 0"
proof (cases t)
  case (Tuple2 a b)
  then show ?thesis
    using assms prong2Step_rows[of cfg rd df primVtx "tracks ! a" "tracks ! b" st] by auto
next
  case (Tuple3 a b c)
  then show ?thesis using assms by (simp add: prong3Step_rows2)
qed

lemma fold_candStep_rows2_nonzero:
  "\<forall>r \<in> set (rowTrackIndexProng2 st). snd (snd r) \<noteq> 0 \<Longrightarrow>
     \<forall>r \<in> set (rowTrackIndexProng2 (fold (candStep cfg rd df primVtx tracks) ts st)). snd (snd r) \<noteq> 0"
proof (induction ts arbitrary: st)
  case Nil
  then show ?case by simp
next
  case (Cons t ts)
  from candStep_rows2_nonzero[OF Cons.prems]
  have "\<forall>r \<in> set (rowTrackIndexProng2 (candStep cfg rd df primVtx tracks t st)). snd (snd r) \<noteq> 0" .
  from Cons.IH[OF this] show ?case by simp
qed

subsection \<open>Tuples of charged tracks\<close>

lemma Tuple2_in_candidates:
  "Tuple2 i j \<in> set (candidates cfg tracks) \<Longrightarrow>
     i < length tracks \<and> j < length tracks
     \<and> \<not> signed1Pt (tracks ! i) < 0 \<and> \<not> signed1Pt (tracks ! j) > 0"
  by (auto simp: candidates_def pos1Tuples_def neg1Tuples_def pos2Tuples_def neg2Tuples_def
      split: if_splits)

lemma Tuple3_in_candidates:
  "Tuple3 a b c \<in> set (candidates cfg tracks) \<Longrightarrow>
     (a < c \<and> \<not> signed1Pt (tracks ! a) < 0 \<and> \<not> signed1Pt (tracks ! b) > 0
        \<and> \<not> signed1Pt (tracks ! c) < 0
      \<or> a < c \<and> \<not> signed1Pt (tracks ! a) > 0 \<and> \<not> signed1Pt (tracks ! b) < 0
        \<and> \<not> signed1Pt (tracks ! c) > 0)
     \<and> a < length tracks \<and> b < length tracks \<and> c < length tracks"
  by (auto simp: candidates_def pos1Tuples_def neg1Tuples_def pos2Tuples_def neg2Tuples_def
      split: if_splits)

text \<open>When no track has \<open>signed1Pt = 0\<close>, the sign tests of the loops and the start of the
  inner loops one past the first track keep the tracks of every tuple apart.\<close>

lemma candidates_distinct_if_charged:
  assumes "\<forall>t \<in> set tracks. signed1Pt t \<noteq> 0"
  shows "(Tuple2 i j \<in> set (candidates cfg tracks) \<longrightarrow> i \<noteq> j)
    \<and> (Tuple3 a b c \<in> set (candidates cfg tracks) \<longrightarrow> a \<noteq> b \<and> b \<noteq> c \<and> a \<noteq> c)"
proof (rule conjI; rule impI)
  assume "Tuple2 i j \<in> set (candidates cfg tracks)"
  from Tuple2_in_candidates[OF this] have "i < length tracks" "j < length tracks"
    "0 \<le> signed1Pt (tracks ! i)" "signed1Pt (tracks ! j) \<le> 0" by auto
  moreover have "signed1Pt (tracks ! i) \<noteq> 0" using assms \<open>i < length tracks\<close> by simp
  ultimately show "i \<noteq> j" by auto
next
  assume "Tuple3 a b c \<in> set (candidates cfg tracks)"
  from Tuple3_in_candidates[OF this] have
    h: "a < c \<and> 0 \<le> signed1Pt (tracks ! a) \<and> signed1Pt (tracks ! b) \<le> 0 \<and> 0 \<le> signed1Pt (tracks ! c)
      \<or> a < c \<and> signed1Pt (tracks ! a) \<le> 0 \<and> 0 \<le> signed1Pt (tracks ! b) \<and> signed1Pt (tracks ! c) \<le> 0"
    and l: "a < length tracks" "b < length tracks" "c < length tracks" by auto
  have nz: "signed1Pt (tracks ! a) \<noteq> 0" "signed1Pt (tracks ! b) \<noteq> 0" "signed1Pt (tracks ! c) \<noteq> 0"
    using assms l by simp_all
  from h nz show "a \<noteq> b \<and> b \<noteq> c \<and> a \<noteq> c" by auto
qed

section \<open>The claims\<close>

subsection \<open>C1: the mass window is half open\<close>

text \<open>C1. Whenever the invariant-mass stage runs for a channel (the pT bin was found, the
  channel's bit is still set or debug mode is on, and the row enables the cut with
  \<open>massMin \<ge> 0\<close> and \<open>massMax > 0\<close>), the entry of \<^verbatim>\<open>whichHypo\<close> it leaves has bit 0 set
  exactly when \<open>massMin\<^sup>2 \<le> m\<^sub>0\<^sup>2 < massMax\<^sup>2\<close> and bit 1 set exactly when
  \<open>massMin\<^sup>2 \<le> m\<^sub>1\<^sup>2 < massMax\<^sup>2\<close>, and the channel's bit survives the stage exactly when one of
  the two orderings passes. This holds for the stage itself and for the entries that
  \<^verbatim>\<open>is2ProngPreselected\<close> and \<^verbatim>\<open>is3ProngPreselected\<close> return. A squared mass equal to
  \<open>massMin\<^sup>2\<close> passes, one equal to \<open>massMax\<^sup>2\<close> does not.\<close>

theorem mass_window_half_open:
  fixes cfg :: config and rd :: RecoDecay and row :: cutRow
    and j k :: nat and ta tb ua ub uc :: track
  defines "b2 \<equiv> findBin (pTBins2Prong cfg j) (preselPt cfg rd [mom ta, mom tb])"
  defines "row2 \<equiv> cut2Prong cfg j (nat b2)"
  defines "m2 \<equiv> (\<lambda>h. RecoDecay_M2 rd [mom ta, mom tb] (arrMass2Prong rd j h))"
  defines "b3 \<equiv> findBin (pTBins3Prong cfg k) (preselPt cfg rd [mom ua, mom ub, mom uc])"
  defines "row3 \<equiv> cut3Prong cfg k (nat b3)"
  defines "m3 \<equiv> (\<lambda>h. RecoDecay_M2 rd [mom ua, mom ub, mom uc] (arrMass3Prong rd k h))"
  defines "pass \<equiv> (\<lambda>r m. (massMin r)\<^sup>2 \<le> m \<and> m < (massMax r)\<^sup>2)"
  shows
   "((dbg \<or> TESTBIT (isSelected s) i) \<and> 0 \<le> massMin row \<and> 0 < massMax row \<longrightarrow>
       whichHypo (massStage dbg i row ma mb s) i
         = (if pass row ma then 1 else 0) + (if pass row mb then 2 else 0)
       \<and> (TESTBIT (isSelected (massStage dbg i row ma mb s)) i
            \<longleftrightarrow> TESTBIT (isSelected s) i \<and> (pass row ma \<or> pass row mb)))
    \<and> (j < n2ProngDecays \<and> b2 \<noteq> - 1 \<and> (debug cfg \<or> TESTBIT (isSelected s) j)
         \<and> 0 \<le> massMin row2 \<and> 0 < massMax row2 \<longrightarrow>
       whichHypo (is2ProngPreselected cfg rd ta tb s) j
         = (if pass row2 (m2 0) then 1 else 0) + (if pass row2 (m2 1) then 2 else 0)
       \<and> (TESTBIT (isSelected (is2ProngPreselected cfg rd ta tb s)) j
            \<longleftrightarrow> TESTBIT (isSelected s) j \<and> (pass row2 (m2 0) \<or> pass row2 (m2 1))
                \<and> \<not> d0d0 row2 < dcaXY ta * dcaXY tb))
    \<and> (k < n3ProngDecays \<and> b3 \<noteq> - 1 \<and> (debug cfg \<or> TESTBIT (isSelected s) k)
         \<and> 0 \<le> massMin row3 \<and> 0 < massMax row3 \<longrightarrow>
       whichHypo (is3ProngPreselected cfg rd ua ub uc s) k
         = (if pass row3 (m3 0) then 1 else 0) + (if pass row3 (m3 1) then 2 else 0)
       \<and> (TESTBIT (isSelected (is3ProngPreselected cfg rd ua ub uc s)) k
            \<longleftrightarrow> TESTBIT (isSelected s) k \<and> (pass row3 (m3 0) \<or> pass row3 (m3 1))))"
proof -
  have stage: "\<And>dbg i row ma mb s.
     (dbg \<or> TESTBIT (isSelected s) i) \<and> 0 \<le> massMin row \<and> 0 < massMax row \<Longrightarrow>
       whichHypo (massStage dbg i row ma mb s) i
         = (if pass row ma then 1 else 0) + (if pass row mb then 2 else 0)
       \<and> (TESTBIT (isSelected (massStage dbg i row ma mb s)) i
            \<longleftrightarrow> TESTBIT (isSelected s) i \<and> (pass row ma \<or> pass row mb))"
    unfolding testbit_chan whichHypo_chan chan_massStage
    by (auto simp: pass_def Let_def testbit_chan[symmetric])
  have two: "j < n2ProngDecays \<and> b2 \<noteq> - 1 \<and> (debug cfg \<or> TESTBIT (isSelected s) j)
         \<and> 0 \<le> massMin row2 \<and> 0 < massMax row2 \<longrightarrow>
       whichHypo (is2ProngPreselected cfg rd ta tb s) j
         = (if pass row2 (m2 0) then 1 else 0) + (if pass row2 (m2 1) then 2 else 0)
       \<and> (TESTBIT (isSelected (is2ProngPreselected cfg rd ta tb s)) j
            \<longleftrightarrow> TESTBIT (isSelected s) j \<and> (pass row2 (m2 0) \<or> pass row2 (m2 1))
                \<and> \<not> d0d0 row2 < dcaXY ta * dcaXY tb)"
  proof
    assume h: "j < n2ProngDecays \<and> b2 \<noteq> - 1 \<and> (debug cfg \<or> TESTBIT (isSelected s) j)
         \<and> 0 \<le> massMin row2 \<and> 0 < massMax row2"
    define sm where "sm = massStage (debug cfg) j row2 (m2 0) (m2 1) s"
    have sm: "whichHypo sm j = (if pass row2 (m2 0) then 1 else 0) + (if pass row2 (m2 1) then 2 else 0)
       \<and> (TESTBIT (isSelected sm) j \<longleftrightarrow> TESTBIT (isSelected s) j \<and> (pass row2 (m2 0) \<or> pass row2 (m2 1)))"
      unfolding sm_def using h by (intro stage) simp
    have pd: "presel2Decay cfg rd ta tb j s = impParStage (debug cfg) j row2 (dcaXY ta * dcaXY tb) sm"
      using h by (simp add: presel2Decay_def Let_def b2_def row2_def m2_def sm_def)
    have c: "chan j (is2ProngPreselected cfg rd ta tb s)
        = chan j (impParStage (debug cfg) j row2 (dcaXY ta * dcaXY tb) sm)"
      using h by (simp add: chan_is2ProngPreselected pd)
    show "whichHypo (is2ProngPreselected cfg rd ta tb s) j
         = (if pass row2 (m2 0) then 1 else 0) + (if pass row2 (m2 1) then 2 else 0)
       \<and> (TESTBIT (isSelected (is2ProngPreselected cfg rd ta tb s)) j
            \<longleftrightarrow> TESTBIT (isSelected s) j \<and> (pass row2 (m2 0) \<or> pass row2 (m2 1))
                \<and> \<not> d0d0 row2 < dcaXY ta * dcaXY tb)"
      unfolding testbit_chan[of "is2ProngPreselected cfg rd ta tb s"]
        whichHypo_chan[of "is2ProngPreselected cfg rd ta tb s"] c chan_impParStage
      using sm h by (auto simp: chan_def)
  qed
  have three: "k < n3ProngDecays \<and> b3 \<noteq> - 1 \<and> (debug cfg \<or> TESTBIT (isSelected s) k)
         \<and> 0 \<le> massMin row3 \<and> 0 < massMax row3 \<longrightarrow>
       whichHypo (is3ProngPreselected cfg rd ua ub uc s) k
         = (if pass row3 (m3 0) then 1 else 0) + (if pass row3 (m3 1) then 2 else 0)
       \<and> (TESTBIT (isSelected (is3ProngPreselected cfg rd ua ub uc s)) k
            \<longleftrightarrow> TESTBIT (isSelected s) k \<and> (pass row3 (m3 0) \<or> pass row3 (m3 1)))"
  proof
    assume h: "k < n3ProngDecays \<and> b3 \<noteq> - 1 \<and> (debug cfg \<or> TESTBIT (isSelected s) k)
         \<and> 0 \<le> massMin row3 \<and> 0 < massMax row3"
    define sm where "sm = massStage (debug cfg) k row3 (m3 0) (m3 1) s"
    have sm: "whichHypo sm k = (if pass row3 (m3 0) then 1 else 0) + (if pass row3 (m3 1) then 2 else 0)
       \<and> (TESTBIT (isSelected sm) k \<longleftrightarrow> TESTBIT (isSelected s) k \<and> (pass row3 (m3 0) \<or> pass row3 (m3 1)))"
      unfolding sm_def using h by (intro stage) simp
    have pd: "presel3Decay cfg rd ua ub uc k s = sm"
      using h by (simp add: presel3Decay_def Let_def b3_def row3_def m3_def sm_def)
    have c: "chan k (is3ProngPreselected cfg rd ua ub uc s) = chan k sm"
      using h by (simp add: chan_is3ProngPreselected pd)
    show "whichHypo (is3ProngPreselected cfg rd ua ub uc s) k
         = (if pass row3 (m3 0) then 1 else 0) + (if pass row3 (m3 1) then 2 else 0)
       \<and> (TESTBIT (isSelected (is3ProngPreselected cfg rd ua ub uc s)) k
            \<longleftrightarrow> TESTBIT (isSelected s) k \<and> (pass row3 (m3 0) \<or> pass row3 (m3 1)))"
      unfolding testbit_chan[of "is3ProngPreselected cfg rd ua ub uc s"]
        whichHypo_chan[of "is3ProngPreselected cfg rd ua ub uc s"] c
      using sm by (simp add: chan_def)
  qed
  show ?thesis using stage[of dbg s i row ma mb] two three by blast
qed

theorem mass_window_half_open_witness:
  "0 < n2ProngDecays \<and> 1 < n3ProngDecays \<and> TESTBIT (isSelected exSel) 0 \<and> TESTBIT (isSelected exSel) 1
   \<and> findBin (pTBins2Prong (exCfg False) 0)
        (preselPt (exCfg False) exRd [mom (exTrack 1 1 (1 / 2)), mom (exTrack 2 (- 1) 0)]) = 0
   \<and> cut2Prong (exCfg False) 0 0 = exRow0 \<and> (massMin exRow0)\<^sup>2 = 1 \<and> (massMax exRow0)\<^sup>2 = 4
   \<and> RecoDecay_M2 exRd [mom (exTrack 1 1 (1 / 2)), mom (exTrack 2 (- 1) 0)] (arrMass2Prong exRd 0 0) = 1
   \<and> RecoDecay_M2 exRd [mom (exTrack 1 1 (1 / 2)), mom (exTrack 2 (- 1) 0)] (arrMass2Prong exRd 0 1) = 4
   \<and> whichHypo (is2ProngPreselected (exCfg False) exRd (exTrack 1 1 (1 / 2)) (exTrack 2 (- 1) 0) exSel) 0 = 1
   \<and> TESTBIT (isSelected (is2ProngPreselected (exCfg False) exRd
         (exTrack 1 1 (1 / 2)) (exTrack 2 (- 1) 0) exSel)) 0
   \<and> whichHypo (is3ProngPreselected (exCfg False) exRd
         (exTrack 1 1 (1 / 2)) (exTrack 2 (- 1) 0) (exTrack 3 1 0) exSel) 1 = 2
   \<and> whichHypo (massStage False 0 exRow0 1 4 exSel) 0 = 1
   \<and> whichHypo (massStage False 0 exRow0 4 4 exSel) 0 = 0
   \<and> \<not> TESTBIT (isSelected (massStage False 0 exRow0 4 4 exSel)) 0"
proof -
  show ?thesis
    using mass_window_half_open[where cfg = "exCfg False" and rd = exRd and j = 0 and k = 1
        and ta = "exTrack 1 1 (1 / 2)" and tb = "exTrack 2 (- 1) 0"
        and ua = "exTrack 1 1 (1 / 2)" and ub = "exTrack 2 (- 1) 0" and uc = "exTrack 3 1 0"
        and s = exSel and dbg = False and i = 0 and row = exRow0 and ma = 1 and mb = 4]
      mass_window_half_open[where s = exSel and dbg = False and i = 0 and row = exRow0
        and ma = 4 and mb = 4 and j = 7 and k = 7]
    by (simp add: exCfg_def exRd_def exTrack_def mom_def preselPt_def findBin_def exRow0_def
        arrMass2Prong_def arrMass3Prong_def exSel_def TESTBIT_def BIT_def
        n2ProngDecays_def n3ProngDecays_def)
qed

subsection \<open>C2: bits of the selection bit map are only ever cleared\<close>

text \<open>C2. The bit map a candidate starts from (\<^verbatim>\<open>n2ProngBit\<close>, \<^verbatim>\<open>n3ProngBit\<close>) has the bit
  of every channel set. No stage sets a bit: a bit that is set after the pT-bin rejection,
  the mass stage, the impact-parameter stage, the pointing-angle stage or the decay-length
  stage was set before it; the same holds for each of the four selection functions and for
  a pre-selection followed by the selection after the vertex fit. So a bit that some stage
  has cleared stays cleared to the end of the candidate's evaluation.\<close>

theorem bitmask_only_cleared:
  "(TESTBIT n2ProngBit i \<longleftrightarrow> i < n2ProngDecays)
   \<and> (TESTBIT n3ProngBit i \<longleftrightarrow> i < n3ProngDecays)
   \<and> (TESTBIT (isSelected (rejectAt dbg j c s)) i \<longrightarrow> TESTBIT (isSelected s) i)
   \<and> (TESTBIT (isSelected (massStage dbg j row ma mb s)) i \<longrightarrow> TESTBIT (isSelected s) i)
   \<and> (TESTBIT (isSelected (impParStage dbg j row ipp s)) i \<longrightarrow> TESTBIT (isSelected s) i)
   \<and> (TESTBIT (isSelected (cospStage dbg j c row cpa s)) i \<longrightarrow> TESTBIT (isSelected s) i)
   \<and> (TESTBIT (isSelected (decLStage dbg j row len s)) i \<longrightarrow> TESTBIT (isSelected s) i)
   \<and> (TESTBIT (isSelected (is2ProngPreselected cfg rd ta tb s)) i \<longrightarrow> TESTBIT (isSelected s) i)
   \<and> (TESTBIT (isSelected (is3ProngPreselected cfg rd ta tb tc s)) i \<longrightarrow> TESTBIT (isSelected s) i)
   \<and> (TESTBIT (isSelected (is2ProngSelected cfg rd p v pv s)) i \<longrightarrow> TESTBIT (isSelected s) i)
   \<and> (TESTBIT (isSelected (is3ProngSelected cfg rd p v pv s)) i \<longrightarrow> TESTBIT (isSelected s) i)
   \<and> (TESTBIT (isSelected (is2ProngSelected cfg rd p v pv (is2ProngPreselected cfg rd ta tb s))) i
        \<longrightarrow> TESTBIT (isSelected (is2ProngPreselected cfg rd ta tb s)) i \<and> TESTBIT (isSelected s) i)
   \<and> (TESTBIT (isSelected (is3ProngSelected cfg rd p v pv (is3ProngPreselected cfg rd ta tb tc s))) i
        \<longrightarrow> TESTBIT (isSelected (is3ProngPreselected cfg rd ta tb tc s)) i \<and> TESTBIT (isSelected s) i)"
  using n2ProngBit_bits[of i] n3ProngBit_bits[of i]
    rejectAt_bit[of dbg j c s i]
    massStage_bit_le[of dbg j row ma mb s i]
    impParStage_bit_le[of dbg j row ipp s i]
    cospStage_bit_le[of dbg j c row cpa s i]
    decLStage_bit_le[of dbg j row len s i]
    is2ProngPreselected_bit_le[of cfg rd ta tb s i]
    is3ProngPreselected_bit_le[of cfg rd ta tb tc s i]
    is2ProngSelected_bit_le[of cfg rd p v pv s i]
    is3ProngSelected_bit_le[of cfg rd p v pv s i]
    is2ProngSelected_bit_le[of cfg rd p v pv "is2ProngPreselected cfg rd ta tb s" i]
    is3ProngSelected_bit_le[of cfg rd p v pv "is3ProngPreselected cfg rd ta tb tc s" i]
  by blast

text \<open>An instance: a candidate whose combined pT is beyond the last bin edge loses the bit
  of channel 0 in the pre-selection, and the selection after a vertex fit that brings its
  pT back into a bin with every cut disabled does not set the bit again.\<close>

theorem bitmask_only_cleared_witness:
  "TESTBIT n2ProngBit 0 \<and> (0::nat) < n2ProngDecays
   \<and> \<not> TESTBIT (isSelected (is2ProngPreselected (exCfg True) exRd
          (exTrack 1 1 15) (exTrack 2 (- 1) 0) (exSel\<lparr>isSelected := n2ProngBit\<rparr>))) 0
   \<and> \<not> TESTBIT (isSelected (is2ProngSelected (exCfg True) exRd (5, 0, 0) (0, 0, 0) (0, 0, 0)
          (is2ProngPreselected (exCfg True) exRd
             (exTrack 1 1 15) (exTrack 2 (- 1) 0) (exSel\<lparr>isSelected := n2ProngBit\<rparr>)))) 0"
proof -
  have pre: "\<not> TESTBIT (isSelected (is2ProngPreselected (exCfg True) exRd
          (exTrack 1 1 15) (exTrack 2 (- 1) 0) (exSel\<lparr>isSelected := n2ProngBit\<rparr>))) 0"
    unfolding testbit_chan chan_is2ProngPreselected
    by (simp add: n2ProngDecays_def presel2Decay_def exCfg_def exRd_def exTrack_def mom_def
        preselPt_def findBin_def chan_rejectAt)
  show ?thesis
    using pre bitmask_only_cleared[where i = 0 and cfg = "exCfg True" and rd = exRd
        and ta = "exTrack 1 1 15" and tb = "exTrack 2 (- 1) 0"
        and s = "exSel\<lparr>isSelected := n2ProngBit\<rparr>"
        and p = "(5, 0, 0)" and v = "(0, 0, 0)" and pv = "(0, 0, 0)"]
    by (simp add: n2ProngDecays_def)
qed

subsection \<open>C3: a disabled mass cut\<close>

text \<open>C3. When the cut row of the candidate's pT bin has a negative \<open>massMin\<close> or a
  non-positive \<open>massMax\<close>, the invariant-mass stage does nothing beyond setting the
  channel's entry of \<^verbatim>\<open>whichHypo\<close> to its default 3: its result is the same for all
  squared masses, and it leaves the bit map and the debug matrix as they were. The entry
  that \<^verbatim>\<open>is2ProngPreselected\<close> and \<^verbatim>\<open>is3ProngPreselected\<close> return is then 3, and the
  channel's bit is cleared by the impact-parameter stage alone (2-prong) or not at all
  (3-prong).\<close>

theorem disabled_mass_cut:
  fixes cfg :: config and rd :: RecoDecay and row :: cutRow
    and j k :: nat and ta tb ua ub uc :: track
  defines "b2 \<equiv> findBin (pTBins2Prong cfg j) (preselPt cfg rd [mom ta, mom tb])"
  defines "row2 \<equiv> cut2Prong cfg j (nat b2)"
  defines "b3 \<equiv> findBin (pTBins3Prong cfg k) (preselPt cfg rd [mom ua, mom ub, mom uc])"
  defines "row3 \<equiv> cut3Prong cfg k (nat b3)"
  shows
   "(massMin row < 0 \<or> massMax row \<le> 0 \<longrightarrow>
       massStage dbg i row ma mb s = s\<lparr>whichHypo := (whichHypo s)(i := 3)\<rparr>)
    \<and> (j < n2ProngDecays \<and> b2 \<noteq> - 1 \<and> (massMin row2 < 0 \<or> massMax row2 \<le> 0) \<longrightarrow>
         whichHypo (is2ProngPreselected cfg rd ta tb s) j = 3
         \<and> cutStatus (is2ProngPreselected cfg rd ta tb s) j 1 = cutStatus s j 1
         \<and> (TESTBIT (isSelected (is2ProngPreselected cfg rd ta tb s)) j
              \<longleftrightarrow> TESTBIT (isSelected s) j \<and> \<not> d0d0 row2 < dcaXY ta * dcaXY tb))
    \<and> (k < n3ProngDecays \<and> b3 \<noteq> - 1 \<and> (massMin row3 < 0 \<or> massMax row3 \<le> 0) \<longrightarrow>
         whichHypo (is3ProngPreselected cfg rd ua ub uc s) k = 3
         \<and> cutStatus (is3ProngPreselected cfg rd ua ub uc s) k = cutStatus s k
         \<and> (TESTBIT (isSelected (is3ProngPreselected cfg rd ua ub uc s)) k
              \<longleftrightarrow> TESTBIT (isSelected s) k))"
proof -
  have stage: "\<And>dbg i row ma mb s. massMin row < 0 \<or> massMax row \<le> 0 \<Longrightarrow>
       massStage dbg i row ma mb s = s\<lparr>whichHypo := (whichHypo s)(i := 3)\<rparr>"
    by (auto simp: massStage_def Let_def)
  have two: "j < n2ProngDecays \<and> b2 \<noteq> - 1 \<and> (massMin row2 < 0 \<or> massMax row2 \<le> 0) \<longrightarrow>
         whichHypo (is2ProngPreselected cfg rd ta tb s) j = 3
         \<and> cutStatus (is2ProngPreselected cfg rd ta tb s) j 1 = cutStatus s j 1
         \<and> (TESTBIT (isSelected (is2ProngPreselected cfg rd ta tb s)) j
              \<longleftrightarrow> TESTBIT (isSelected s) j \<and> \<not> d0d0 row2 < dcaXY ta * dcaXY tb)"
  proof
    assume h: "j < n2ProngDecays \<and> b2 \<noteq> - 1 \<and> (massMin row2 < 0 \<or> massMax row2 \<le> 0)"
    define sm where "sm = s\<lparr>whichHypo := (whichHypo s)(j := 3)\<rparr>"
    have pd: "presel2Decay cfg rd ta tb j s = impParStage (debug cfg) j row2 (dcaXY ta * dcaXY tb) sm"
      using h stage[of row2 "debug cfg" j _ _ s]
      by (simp add: presel2Decay_def Let_def b2_def row2_def sm_def)
    have c: "chan j (is2ProngPreselected cfg rd ta tb s)
        = chan j (impParStage (debug cfg) j row2 (dcaXY ta * dcaXY tb) sm)"
      using h by (simp add: chan_is2ProngPreselected pd)
    show "whichHypo (is2ProngPreselected cfg rd ta tb s) j = 3
         \<and> cutStatus (is2ProngPreselected cfg rd ta tb s) j 1 = cutStatus s j 1
         \<and> (TESTBIT (isSelected (is2ProngPreselected cfg rd ta tb s)) j
              \<longleftrightarrow> TESTBIT (isSelected s) j \<and> \<not> d0d0 row2 < dcaXY ta * dcaXY tb)"
      unfolding testbit_chan[of "is2ProngPreselected cfg rd ta tb s"]
        whichHypo_chan[of "is2ProngPreselected cfg rd ta tb s"]
        cutStatus_chan[of "is2ProngPreselected cfg rd ta tb s"] c chan_impParStage
      by (auto simp: chan_def sm_def)
  qed
  have three: "k < n3ProngDecays \<and> b3 \<noteq> - 1 \<and> (massMin row3 < 0 \<or> massMax row3 \<le> 0) \<longrightarrow>
         whichHypo (is3ProngPreselected cfg rd ua ub uc s) k = 3
         \<and> cutStatus (is3ProngPreselected cfg rd ua ub uc s) k = cutStatus s k
         \<and> (TESTBIT (isSelected (is3ProngPreselected cfg rd ua ub uc s)) k
              \<longleftrightarrow> TESTBIT (isSelected s) k)"
  proof
    assume h: "k < n3ProngDecays \<and> b3 \<noteq> - 1 \<and> (massMin row3 < 0 \<or> massMax row3 \<le> 0)"
    define sm where "sm = s\<lparr>whichHypo := (whichHypo s)(k := 3)\<rparr>"
    have pd: "presel3Decay cfg rd ua ub uc k s = sm"
      using h stage[of row3 "debug cfg" k _ _ s]
      by (simp add: presel3Decay_def Let_def b3_def row3_def sm_def)
    have c: "chan k (is3ProngPreselected cfg rd ua ub uc s) = chan k sm"
      using h by (simp add: chan_is3ProngPreselected pd)
    show "whichHypo (is3ProngPreselected cfg rd ua ub uc s) k = 3
         \<and> cutStatus (is3ProngPreselected cfg rd ua ub uc s) k = cutStatus s k
         \<and> (TESTBIT (isSelected (is3ProngPreselected cfg rd ua ub uc s)) k
              \<longleftrightarrow> TESTBIT (isSelected s) k)"
      unfolding testbit_chan[of "is3ProngPreselected cfg rd ua ub uc s"]
        whichHypo_chan[of "is3ProngPreselected cfg rd ua ub uc s"]
        cutStatus_chan[of "is3ProngPreselected cfg rd ua ub uc s"] c
      by (simp add: chan_def sm_def)
  qed
  show ?thesis using stage[of row dbg i ma mb s] two three by blast
qed

text \<open>An instance: a candidate in the second pT bin of the example configuration, whose row
  has \<open>massMin = -1\<close>; none of its squared masses (1, 4, 9) would fit a window.\<close>

theorem disabled_mass_cut_witness:
  "0 < n2ProngDecays \<and> 1 < n3ProngDecays
   \<and> findBin (pTBins2Prong (exCfg False) 0)
        (preselPt (exCfg False) exRd [mom (exTrack 1 1 5), mom (exTrack 2 (- 1) 0)]) = 1
   \<and> massMin (cut2Prong (exCfg False) 0 1) < 0
   \<and> whichHypo (is2ProngPreselected (exCfg False) exRd (exTrack 1 1 5) (exTrack 2 (- 1) 0) exSel) 0 = 3
   \<and> TESTBIT (isSelected (is2ProngPreselected (exCfg False) exRd
         (exTrack 1 1 5) (exTrack 2 (- 1) 0) exSel)) 0
   \<and> whichHypo (is3ProngPreselected (exCfg False) exRd
         (exTrack 1 1 5) (exTrack 2 (- 1) 0) (exTrack 3 1 0) exSel) 1 = 3
   \<and> TESTBIT (isSelected (is3ProngPreselected (exCfg False) exRd
         (exTrack 1 1 5) (exTrack 2 (- 1) 0) (exTrack 3 1 0) exSel)) 1
   \<and> massStage False 0 exRow1 1 4 exSel = massStage False 0 exRow1 100 200 exSel"
  using disabled_mass_cut[where cfg = "exCfg False" and rd = exRd and j = 0 and k = 1
        and ta = "exTrack 1 1 5" and tb = "exTrack 2 (- 1) 0"
        and ua = "exTrack 1 1 5" and ub = "exTrack 2 (- 1) 0" and uc = "exTrack 3 1 0"
        and s = exSel and dbg = False and i = 0 and row = exRow1 and ma = 1 and mb = 4]
      disabled_mass_cut[where s = exSel and dbg = False and i = 0 and row = exRow1
        and ma = 100 and mb = 200 and j = 7 and k = 7]
  by (simp add: exCfg_def exRd_def exTrack_def mom_def preselPt_def findBin_def exRow1_def
        exSel_def TESTBIT_def BIT_def n2ProngDecays_def n3ProngDecays_def)

subsection \<open>C4: short circuit and debug mode in the 2-prong pre-selection\<close>



subsection \<open>C5: a track is not paired with itself, unless \<open>signed1Pt\<close> is zero\<close>


subsection \<open>C6: the pT-bin lookup\<close>

text \<open>C6, as amended. For strictly increasing edges of length \<open>k + 1\<close> the lookup returns
  the sentinel \<open>-1\<close> exactly when \<open>pT < edges[0]\<close> or \<open>pT \<ge> edges[k]\<close>; otherwise it
  returns the one index \<open>i\<close> below \<open>k\<close> with \<open>edges[i] \<le> pT < edges[i+1]\<close>. It is
  non-decreasing in pT below the last edge (\<open>pT \<le> pT' < edges[k]\<close>); beyond the last edge
  it falls back to the sentinel. A sentinel result makes the 2-prong pre-selection clear the
  bit of that channel at the pT stage and nothing else, and makes the single-track cut
  answer false; neither is an error.\<close>

theorem findBin_contract:
  assumes "sorted_wrt (<) edges" and "length edges = k + 1"
  shows "(findBin edges pT = - 1 \<longleftrightarrow> pT < edges ! 0 \<or> edges ! k \<le> pT)
    \<and> (findBin edges pT \<noteq> - 1 \<longrightarrow>
         0 \<le> findBin edges pT \<and> findBin edges pT < int k
         \<and> edges ! nat (findBin edges pT) \<le> pT \<and> pT < edges ! (nat (findBin edges pT) + 1))
    \<and> (\<forall>j. j < k \<and> edges ! j \<le> pT \<and> pT < edges ! (j + 1) \<longrightarrow> findBin edges pT = int j)
    \<and> (pT \<le> pT' \<and> pT' < edges ! k \<longrightarrow> findBin edges pT \<le> findBin edges pT')
    \<and> (findBin (pTBins2Prong cfg iDecay) (preselPt cfg rd [mom t0, mom t1]) = - 1 \<longrightarrow>
         presel2Decay cfg rd t0 t1 iDecay s = rejectAt (debug cfg) iDecay 0 s
         \<and> \<not> TESTBIT (isSelected (presel2Decay cfg rd t0 t1 iDecay s)) iDecay
         \<and> (iDecay < n2ProngDecays \<longrightarrow>
              \<not> TESTBIT (isSelected (is2ProngPreselected cfg rd t0 t1 s)) iDecay))
    \<and> (findBin pTBinsTrack pt = - 1 \<longrightarrow> \<not> isSelectedTrack pTBinsTrack cuts pt dca candType)"
proof -
  have ne: "edges \<noteq> []" using assms(2) by auto
  have hd: "hd edges = edges ! 0" using ne by (simp add: hd_conv_nth)
  have lst: "last edges = edges ! k" using ne assms(2) by (simp add: last_conv_nth)
  have sent: "\<And>v. findBin edges v = - 1 \<longleftrightarrow> v < edges ! 0 \<or> edges ! k \<le> v"
    using findBinFrom_sentinel[of 0 edges] assms(1) ne by (simp add: findBin_def hd lst)
  have ins: "findBin edges pT \<noteq> - 1 \<longrightarrow>
         0 \<le> findBin edges pT \<and> findBin edges pT < int k
         \<and> edges ! nat (findBin edges pT) \<le> pT \<and> pT < edges ! (nat (findBin edges pT) + 1)"
    using findBinFrom_inside[of 0 edges pT] assms(2) by (auto simp: findBin_def)
  have uniq: "\<forall>j. j < k \<and> edges ! j \<le> pT \<and> pT < edges ! (j + 1) \<longrightarrow> findBin edges pT = int j"
    using findBin_unique[OF assms(1), of _ pT] assms(2) by simp
  have mono: "pT \<le> pT' \<and> pT' < edges ! k \<longrightarrow> findBin edges pT \<le> findBin edges pT'"
  proof (intro impI, elim conjE)
    assume le: "pT \<le> pT'" and up: "pT' < edges ! k"
    show "findBin edges pT \<le> findBin edges pT'"
    proof (cases "findBin edges pT' = - 1")
      case True
      then have "pT' < edges ! 0" using sent[of pT'] up by simp
      then have "findBin edges pT = - 1" using sent[of pT] le by simp
      then show ?thesis using True by simp
    next
      case False
      then show ?thesis
        using findBinFrom_mono[of 0 edges pT pT'] assms(1) le by (simp add: findBin_def)
    qed
  qed
  have rej: "findBin (pTBins2Prong cfg iDecay) (preselPt cfg rd [mom t0, mom t1]) = - 1 \<longrightarrow>
         presel2Decay cfg rd t0 t1 iDecay s = rejectAt (debug cfg) iDecay 0 s
         \<and> \<not> TESTBIT (isSelected (presel2Decay cfg rd t0 t1 iDecay s)) iDecay
         \<and> (iDecay < n2ProngDecays \<longrightarrow>
              \<not> TESTBIT (isSelected (is2ProngPreselected cfg rd t0 t1 s)) iDecay)"
  proof
    assume b: "findBin (pTBins2Prong cfg iDecay) (preselPt cfg rd [mom t0, mom t1]) = - 1"
    then have eq: "presel2Decay cfg rd t0 t1 iDecay s = rejectAt (debug cfg) iDecay 0 s"
      by (simp add: presel2Decay_def)
    have c: "chan iDecay (presel2Decay cfg rd t0 t1 iDecay s)
        = ((if debug cfg then (cutStatus s iDecay)(0 := False) else cutStatus s iDecay),
           whichHypo s iDecay, False)"
      by (simp add: eq chan_rejectAt)
    then have nb: "\<not> TESTBIT (isSelected (presel2Decay cfg rd t0 t1 iDecay s)) iDecay"
      by (simp add: chan_def)
    have "iDecay < n2ProngDecays \<longrightarrow>
              \<not> TESTBIT (isSelected (is2ProngPreselected cfg rd t0 t1 s)) iDecay"
    proof
      assume "iDecay < n2ProngDecays"
      then have "chan iDecay (is2ProngPreselected cfg rd t0 t1 s)
          = chan iDecay (presel2Decay cfg rd t0 t1 iDecay s)"
        by (simp add: chan_is2ProngPreselected)
      then show "\<not> TESTBIT (isSelected (is2ProngPreselected cfg rd t0 t1 s)) iDecay"
        using nb by (simp add: chan_def)
    qed
    with eq nb show "presel2Decay cfg rd t0 t1 iDecay s = rejectAt (debug cfg) iDecay 0 s
         \<and> \<not> TESTBIT (isSelected (presel2Decay cfg rd t0 t1 iDecay s)) iDecay
         \<and> (iDecay < n2ProngDecays \<longrightarrow>
              \<not> TESTBIT (isSelected (is2ProngPreselected cfg rd t0 t1 s)) iDecay)"
      by simp
  qed
  have trk: "findBin pTBinsTrack pt = - 1 \<longrightarrow> \<not> isSelectedTrack pTBinsTrack cuts pt dca candType"
    by (simp add: isSelectedTrack_def)
  show ?thesis using sent[of pT] ins uniq mono rej trk by blast
qed

theorem findBin_contract_witness:
  "sorted_wrt (<) [0, 1, 10 :: real] \<and> length [0, 1, 10 :: real] = 2 + 1
   \<and> findBin [0, 1, 10] 1 = 1
   \<and> findBin [0, 1, 10] 15 = - 1
   \<and> findBin [0, 1, 10] (1 / 2) \<le> findBin [0, 1, 10] 1
   \<and> findBin (pTBins2Prong (exCfg True) 0)
        (preselPt (exCfg True) exRd [mom (exTrack 1 1 15), mom (exTrack 2 (- 1) 0)]) = - 1
   \<and> \<not> TESTBIT (isSelected (is2ProngPreselected (exCfg True) exRd
          (exTrack 1 1 15) (exTrack 2 (- 1) 0) exSel)) 0
   \<and> \<not> isSelectedTrack [0, 1, 10] (\<lambda>c b. \<lparr>min_dcaxytoprimary = 0, max_dcaxytoprimary = 1\<rparr>)
          15 (0, 0) 0"
proof -
  have h1: "sorted_wrt (<) [0, 1, 10 :: real]" by simp
  have h2: "length [0, 1, 10 :: real] = 2 + 1" by simp
  have h3: "findBin (pTBins2Prong (exCfg True) 0)
        (preselPt (exCfg True) exRd [mom (exTrack 1 1 15), mom (exTrack 2 (- 1) 0)]) = - 1"
    by (simp add: exCfg_def exRd_def exTrack_def mom_def preselPt_def findBin_def)
  have h4: "findBin [0, 1, 10] 15 = - 1" by (simp add: findBin_def)
  have h5: "(1::real) \<le> 1 \<and> (1::real) < 10" by simp
  have h6: "(1 / 2 :: real) \<le> 1 \<and> (1::real) < [0, 1, 10] ! 2" by simp
  have h7: "(0::nat) < n2ProngDecays" by (simp add: n2ProngDecays_def)
  show ?thesis
    using findBin_contract[OF h1 h2, of "1 / 2" 1 "exCfg True" 0 exRd "exTrack 1 1 15"
        "exTrack 2 (- 1) 0" exSel "[0, 1, 10]" 15
        "\<lambda>c b. \<lparr>min_dcaxytoprimary = 0, max_dcaxytoprimary = 1\<rparr>" "(0, 0)" 0]
      findBin_contract[OF h1 h2, of 1 1]
      h1 h2 h3 h4 h5 h6 h7
    by (simp add: findBin_def)
qed

text \<open>The lookup is not non-decreasing over all pT: with the edges \<open>[0, 10]\<close> the value 5
  lies in bin 0 and the larger value 15 gets the sentinel \<open>-1\<close>.\<close>

theorem findBin_monotone_counterexample:
  "sorted_wrt (<) [0, 10 :: real] \<and> (5 :: real) \<le> 15
   \<and> findBin [0, 10] 5 = 0 \<and> findBin [0, 10] 15 = - 1
   \<and> \<not> findBin [0, 10] 5 \<le> findBin [0, 10] 15"
  by (simp add: findBin_def)

subsection \<open>C7: a failed vertex fit produces no row\<close>

text \<open>C7. When the vertex fitter returns zero for a tuple, the step of \<^verbatim>\<open>process\<close> for
  that tuple leaves all four output tables as they were, for a 2-prong and for a 3-prong
  tuple; the step is an ordinary state (nothing is raised), and the loop goes on with the
  remaining tuples from it. \<^verbatim>\<open>process\<close> is the run of these steps over the tuples its
  loops generate, so if the fitter fails on every tuple, \<^verbatim>\<open>process\<close> ends with the tables
  it started from.\<close>

theorem vertex_fit_failure_no_row:
  "(nVtx (df2_process df ta tb) = 0 \<longrightarrow>
      tables (prong2Step cfg rd df primVtx ta tb st) = tables st)
   \<and> (nVtx (df3_process df ta tb tc) = 0 \<longrightarrow>
      tables (prong3Step cfg rd df primVtx ta tb tc st) = tables st)
   \<and> (nVtx (fitOf df tracks t) = 0 \<longrightarrow>
      tables (candStep cfg rd df primVtx tracks t st) = tables st
      \<and> fold (candStep cfg rd df primVtx tracks) (t # rest) st
          = fold (candStep cfg rd df primVtx tracks) rest (candStep cfg rd df primVtx tracks t st))
   \<and> process cfg rd df primVtx tracks st
        = fold (candStep cfg rd df primVtx tracks) (candidates cfg tracks) st
   \<and> ((\<forall>t \<in> set (candidates cfg tracks). nVtx (fitOf df tracks t) = 0) \<longrightarrow>
        tables (process cfg rd df primVtx tracks st) = tables st)"
  using prong2Step_fit_failed[of df ta tb cfg rd primVtx st]
    prong3Step_fit_failed[of df ta tb tc cfg rd primVtx st]
    candStep_fit_failed[of df tracks t cfg rd primVtx st]
    process_candidates[of cfg rd df primVtx tracks st]
    fold_candStep_fit_failed[of "candidates cfg tracks" df tracks cfg rd primVtx st]
  by simp

text \<open>An instance: two tracks of opposite charge whose pair lies in the second pT bin, where
  every cut of the example configuration is disabled. With a fitter that returns 0 the tables stay
  empty; with a fitter that returns 1 the pair gets a row.\<close>

theorem vertex_fit_failure_no_row_witness:
  "candidates (exCfg False) [exTrack 1 1 5, exTrack 2 (- 1) 0] = [Tuple2 0 1]
   \<and> nVtx (fitOf (exDf 0) [exTrack 1 1 5, exTrack 2 (- 1) 0] (Tuple2 0 1)) = 0
   \<and> tables (process (exCfg False) exRd (exDf 0) (0, 0, 0) [exTrack 1 1 5, exTrack 2 (- 1) 0] exSt)
        = ([], [], [], [])
   \<and> rowTrackIndexProng2
        (process (exCfg False) exRd (exDf 1) (0, 0, 0) [exTrack 1 1 5, exTrack 2 (- 1) 0] exSt)
        = [(1, 2, 7)]"
proof -
  have c: "candidates (exCfg False) [exTrack 1 1 5, exTrack 2 (- 1) 0] = [Tuple2 0 1]"
    by (simp add: candidates_def pos1Tuples_def neg1Tuples_def pos2Tuples_def neg2Tuples_def
        upt_rec exTrack_def exCfg_def TESTBIT_def BIT_def Cand2Prong_def Cand3Prong_def)
  have f: "nVtx (fitOf (exDf 0) [exTrack 1 1 5, exTrack 2 (- 1) 0] (Tuple2 0 1)) = 0"
    by (simp add: exDf_def)
  have a: "\<forall>t \<in> set (candidates (exCfg False) [exTrack 1 1 5, exTrack 2 (- 1) 0]).
      nVtx (fitOf (exDf 0) [exTrack 1 1 5, exTrack 2 (- 1) 0] t) = 0"
    by (simp add: c exDf_def)
  have p: "rowTrackIndexProng2
        (process (exCfg False) exRd (exDf 1) (0, 0, 0) [exTrack 1 1 5, exTrack 2 (- 1) 0] exSt)
        = [(1, 2, 7)]"
    unfolding process_candidates c
    by (simp add: prong2Step_def Let_def exTrack_simps exCfg_simps exRd_simps exDf_simps
        ex_mask_values ex_presel2_all_pass ex_sel2_all_pass word_sless_alt)
      (simp add: exSt_def)
  show ?thesis
    using vertex_fit_failure_no_row[where cfg = "exCfg False" and rd = exRd and df = "exDf 0"
        and tracks = "[exTrack 1 1 5, exTrack 2 (- 1) 0]" and st = exSt and primVtx = "(0, 0, 0)"]
      a c f p
    by (simp add: tables_def exSt_def)
qed

subsection \<open>C8: what the pre-selection's results depend on\<close>

text \<open>C8 fails as stated for the entries of \<^verbatim>\<open>whichHypo\<close>: a channel without a pT bin
  leaves its entry as the caller's array held it, and \<^verbatim>\<open>process\<close> reuses one array for
  all candidates. Two calls of \<^verbatim>\<open>is2ProngPreselected\<close> with the same tracks, the same
  configuration and the same incoming bit map, on a candidate beyond the last bin edge,
  return the entries 5 and 0 when the array held 5 and 0 before.\<close>

theorem whichHypo_stale_counterexample:
  "isSelected exSel = isSelected exSel0
   \<and> whichHypo (is2ProngPreselected (exCfg False) exRd (exTrack 1 1 15) (exTrack 2 (- 1) 0) exSel) 0 = 5
   \<and> whichHypo (is2ProngPreselected (exCfg False) exRd (exTrack 1 1 15) (exTrack 2 (- 1) 0) exSel0) 0 = 0"
  unfolding whichHypo_chan chan_is2ProngPreselected
  by (simp add: n2ProngDecays_def presel2Decay_def exCfg_def exRd_def exTrack_def mom_def
      preselPt_def findBin_def chan_rejectAt exSel_def exSel0_def)

text \<open>C8, as amended. The bit map \<^verbatim>\<open>is2ProngPreselected\<close> returns is a function of the
  tracks, the configuration and the incoming bit map: the contents of the arrays
  \<^verbatim>\<open>whichHypo\<close> and \<^verbatim>\<open>cutStatus\<close> on entry have no influence on it. So is the entry of
  \<^verbatim>\<open>whichHypo\<close> of every channel whose pT bin was found, hence of every channel whose bit
  is still set on return. The entry of a channel without a pT bin is not written.\<close>

theorem preselection_deterministic:
  fixes cfg :: config and rd :: RecoDecay and j :: nat and ta tb :: track
  defines "b2 \<equiv> findBin (pTBins2Prong cfg j) (preselPt cfg rd [mom ta, mom tb])"
  assumes same: "isSelected s' = isSelected s"
  shows
   "isSelected (is2ProngPreselected cfg rd ta tb s') = isSelected (is2ProngPreselected cfg rd ta tb s)
    \<and> (j < n2ProngDecays \<and> b2 \<noteq> - 1 \<longrightarrow>
         whichHypo (is2ProngPreselected cfg rd ta tb s') j
           = whichHypo (is2ProngPreselected cfg rd ta tb s) j)
    \<and> (j < n2ProngDecays \<and> TESTBIT (isSelected (is2ProngPreselected cfg rd ta tb s)) j \<longrightarrow>
         whichHypo (is2ProngPreselected cfg rd ta tb s') j
           = whichHypo (is2ProngPreselected cfg rd ta tb s) j)
    \<and> (j < n2ProngDecays \<and> b2 = - 1 \<longrightarrow>
         whichHypo (is2ProngPreselected cfg rd ta tb s) j = whichHypo s j)"
proof -
  have bits: "TESTBIT (isSelected (is2ProngPreselected cfg rd ta tb s')) i
      = TESTBIT (isSelected (is2ProngPreselected cfg rd ta tb s)) i" for i
  proof (cases "i < n2ProngDecays")
    case True
    then show ?thesis
      unfolding testbit_chan chan_is2ProngPreselected
      using chan_presel2Decay_bit[of s' i s cfg rd ta tb] same by simp
  next
    case False
    then show ?thesis
      unfolding testbit_chan chan_is2ProngPreselected using same by (simp add: chan_def)
  qed
  have mask: "isSelected (is2ProngPreselected cfg rd ta tb s')
      = isSelected (is2ProngPreselected cfg rd ta tb s)"
    by (rule bit_eqI) (use bits in \<open>simp add: TESTBIT_iff\<close>)
  have found: "j < n2ProngDecays \<and> b2 \<noteq> - 1 \<longrightarrow>
         whichHypo (is2ProngPreselected cfg rd ta tb s') j
           = whichHypo (is2ProngPreselected cfg rd ta tb s) j"
  proof
    assume h: "j < n2ProngDecays \<and> b2 \<noteq> - 1"
    then have "snd (chan j (presel2Decay cfg rd ta tb j s')) = snd (chan j (presel2Decay cfg rd ta tb j s))"
      using chan_presel2Decay_found[of cfg j rd ta tb s' s] same by (simp add: b2_def)
    then show "whichHypo (is2ProngPreselected cfg rd ta tb s') j
           = whichHypo (is2ProngPreselected cfg rd ta tb s) j"
      unfolding whichHypo_chan chan_is2ProngPreselected using h by simp
  qed
  have stale: "j < n2ProngDecays \<and> b2 = - 1 \<longrightarrow>
         whichHypo (is2ProngPreselected cfg rd ta tb s) j = whichHypo s j"
    unfolding whichHypo_chan chan_is2ProngPreselected
    by (simp add: presel2Decay_def b2_def chan_rejectAt) (simp add: chan_def)
  have cleared: "j < n2ProngDecays \<and> b2 = - 1 \<longrightarrow>
         \<not> TESTBIT (isSelected (is2ProngPreselected cfg rd ta tb s)) j"
    unfolding testbit_chan chan_is2ProngPreselected
    by (simp add: presel2Decay_def b2_def chan_rejectAt)
  show ?thesis using mask found stale cleared by blast
qed

theorem preselection_deterministic_witness:
  "isSelected exSel0 = isSelected exSel \<and> 0 < n2ProngDecays
   \<and> findBin (pTBins2Prong (exCfg False) 0)
        (preselPt (exCfg False) exRd [mom (exTrack 1 1 (1 / 2)), mom (exTrack 2 (- 1) 0)]) = 0
   \<and> isSelected (is2ProngPreselected (exCfg False) exRd (exTrack 1 1 (1 / 2)) (exTrack 2 (- 1) 0) exSel0)
        = isSelected (is2ProngPreselected (exCfg False) exRd (exTrack 1 1 (1 / 2)) (exTrack 2 (- 1) 0) exSel)
   \<and> whichHypo (is2ProngPreselected (exCfg False) exRd (exTrack 1 1 (1 / 2)) (exTrack 2 (- 1) 0) exSel0) 0
        = whichHypo (is2ProngPreselected (exCfg False) exRd (exTrack 1 1 (1 / 2)) (exTrack 2 (- 1) 0) exSel) 0"
proof -
  have same: "isSelected exSel0 = isSelected exSel" by (simp add: exSel_def exSel0_def)
  show ?thesis
    using preselection_deterministic[OF same, where cfg = "exCfg False" and rd = exRd and j = 0
        and ta = "exTrack 1 1 (1 / 2)" and tb = "exTrack 2 (- 1) 0"] same
    by (simp add: exCfg_def exRd_def exTrack_def mom_def preselPt_def findBin_def n2ProngDecays_def)
qed

subsection \<open>C9: the pT tolerance is added before the vertex fit only\<close>



subsection \<open>C10: rows for candidates with an empty bit map\<close>

text \<open>C10. In debug mode a 3-prong tuple whose vertex fit succeeded and whose bit map is zero
  after the selection that follows the fit still gets a row in the 3-prong index table,
  with the bit map 0, and a row in the 3-prong cut-status table. A 2-prong tuple gets a row
  in the 2-prong index table only with a bit map that is not zero, in debug mode or not:
  if its bit map is zero after the pre-selection, or after the selection that follows the
  fit, the step leaves the tables as they were; and every row \<^verbatim>\<open>process\<close> adds to the
  2-prong index table carries a bit map that is not zero.\<close>

theorem zero_bitmask_rows:
  fixes cfg :: config and rd :: RecoDecay and df :: DCAFitter and st :: procState
    and ta tb tc ua ub :: track and primVtx :: vec3
  defines "fit3 \<equiv> df3_process df ta tb tc"
  defines "s3 \<equiv> is3ProngSelected cfg rd
      (RecoDecay_PVec rd [trackMom fit3 0, trackMom fit3 1, trackMom fit3 2]) (PCACandidate fit3) primVtx
      (is3ProngPreselected cfg rd ta tb tc
         \<lparr>cutStatus = resetCutStatus n3ProngDecays nCuts3Prong (cutStatus3Prong st),
          whichHypo = whichHypo3Prong st, isSelected = n3ProngBit\<rparr>)"
  defines "fit2 \<equiv> df2_process df ua ub"
  defines "p1 \<equiv> is2ProngPreselected cfg rd ua ub
      \<lparr>cutStatus = (if debug cfg then resetCutStatus n2ProngDecays nCuts2Prong (cutStatus2Prong st)
                    else cutStatus2Prong st),
       whichHypo = whichHypo2Prong st, isSelected = n2ProngBit\<rparr>"
  defines "p2 \<equiv> is2ProngSelected cfg rd
      (RecoDecay_PVec rd [trackMom fit2 0, trackMom fit2 1]) (PCACandidate fit2) primVtx p1"
  shows
   "(debug cfg \<and> nVtx fit3 \<noteq> 0 \<and> isSelected s3 = 0 \<longrightarrow>
       rowTrackIndexProng3 (prong3Step cfg rd df primVtx ta tb tc st)
         = rowTrackIndexProng3 st @ [(globalIndex ta, globalIndex tb, globalIndex tc, 0)]
       \<and> rowProng3CutStatus (prong3Step cfg rd df primVtx ta tb tc st)
         = rowProng3CutStatus st @
             [(cutStatusBits nCuts3Prong nCutStatus3ProngBit (cutStatus s3 0),
               cutStatusBits nCuts3Prong nCutStatus3ProngBit (cutStatus s3 1),
               cutStatusBits nCuts3Prong nCutStatus3ProngBit (cutStatus s3 2),
               cutStatusBits nCuts3Prong nCutStatus3ProngBit (cutStatus s3 3))])
    \<and> (isSelected p1 = 0 \<longrightarrow> tables (prong2Step cfg rd df primVtx ua ub st) = tables st)
    \<and> (isSelected p2 = 0 \<longrightarrow> tables (prong2Step cfg rd df primVtx ua ub st) = tables st)
    \<and> (rowTrackIndexProng2 (prong2Step cfg rd df primVtx ua ub st) = rowTrackIndexProng2 st
        \<or> (\<exists>m. m \<noteq> 0 \<and> rowTrackIndexProng2 (prong2Step cfg rd df primVtx ua ub st)
               = rowTrackIndexProng2 st @ [(globalIndex ua, globalIndex ub, m)]))
    \<and> ((\<forall>r \<in> set (rowTrackIndexProng2 st). snd (snd r) \<noteq> 0) \<longrightarrow>
        (\<forall>r \<in> set (rowTrackIndexProng2 (process cfg rd df primVtx tracks st)). snd (snd r) \<noteq> 0))"
proof -
  have three: "debug cfg \<and> nVtx fit3 \<noteq> 0 \<and> isSelected s3 = 0 \<longrightarrow>
       rowTrackIndexProng3 (prong3Step cfg rd df primVtx ta tb tc st)
         = rowTrackIndexProng3 st @ [(globalIndex ta, globalIndex tb, globalIndex tc, 0)]
       \<and> rowProng3CutStatus (prong3Step cfg rd df primVtx ta tb tc st)
         = rowProng3CutStatus st @
             [(cutStatusBits nCuts3Prong nCutStatus3ProngBit (cutStatus s3 0),
               cutStatusBits nCuts3Prong nCutStatus3ProngBit (cutStatus s3 1),
               cutStatusBits nCuts3Prong nCutStatus3ProngBit (cutStatus s3 2),
               cutStatusBits nCuts3Prong nCutStatus3ProngBit (cutStatus s3 3))]"
    by (simp add: prong3Step_def Let_def s3_def fit3_def)
  have pre: "isSelected p1 = 0 \<longrightarrow> tables (prong2Step cfg rd df primVtx ua ub st) = tables st"
    by (simp add: prong2Step_def Let_def p1_def tables_def word_sless_alt)
  have post: "isSelected p2 = 0 \<longrightarrow> tables (prong2Step cfg rd df primVtx ua ub st) = tables st"
    by (simp add: prong2Step_def Let_def p1_def p2_def fit2_def tables_def word_sless_alt)
  have inv: "(\<forall>r \<in> set (rowTrackIndexProng2 st). snd (snd r) \<noteq> 0) \<longrightarrow>
        (\<forall>r \<in> set (rowTrackIndexProng2 (process cfg rd df primVtx tracks st)). snd (snd r) \<noteq> 0)"
    unfolding process_candidates using fold_candStep_rows2_nonzero by blast
  show ?thesis
    using three pre post prong2Step_rows[of cfg rd df primVtx ua ub st] inv by blast
qed

text \<open>An instance in debug mode: three tracks whose combined pT is beyond the last bin edge,
  before and after the fit. Every channel is rejected at the pT stage, the bit map is 0,
  and yet the triple gets its row, with the cut-status value 14 (only the bit of stage 1
  cleared) for each channel. The pair of the first two tracks gets no row.\<close>

theorem zero_bitmask_rows_witness:
  "debug (exCfg True)
   \<and> nVtx (df3_process (exDf 1) (exTrack 1 1 15) (exTrack 2 (- 1) 0) (exTrack 3 1 0)) \<noteq> 0
   \<and> rowTrackIndexProng3 (prong3Step (exCfg True) exRd (exDf 1) (0, 0, 0)
        (exTrack 1 1 15) (exTrack 2 (- 1) 0) (exTrack 3 1 0) exSt) = [(1, 2, 3, 0)]
   \<and> rowProng3CutStatus (prong3Step (exCfg True) exRd (exDf 1) (0, 0, 0)
        (exTrack 1 1 15) (exTrack 2 (- 1) 0) (exTrack 3 1 0) exSt) = [(14, 14, 14, 14)]
   \<and> tables (prong2Step (exCfg True) exRd (exDf 1) (0, 0, 0)
        (exTrack 1 1 15) (exTrack 2 (- 1) 0) exSt) = tables exSt"
proof -
  define s1 where "s1 = is3ProngPreselected (exCfg True) exRd (exTrack 1 1 15) (exTrack 2 (- 1) 0) (exTrack 3 1 0)
         \<lparr>cutStatus = (\<lambda>i k. True), whichHypo = (\<lambda>i. 0), isSelected = 15\<rparr>"
  have s1: "isSelected s1 = 0" "cutStatus s1 0 = (\<lambda>k. k \<noteq> 0)" "cutStatus s1 (Suc 0) = (\<lambda>k. k \<noteq> 0)"
    "cutStatus s1 2 = (\<lambda>k. k \<noteq> 0)" "cutStatus s1 3 = (\<lambda>k. k \<noteq> 0)"
    unfolding s1_def
    by (simp_all add: is3ProngPreselected_def decays3 presel3Decay_def rejectAt_def exCfg_simps
        exRd_simps exTrack_simps preselPt_def findBin_def CLRBIT_def BIT_def fun_eq_iff)
  define s3 where "s3 = is3ProngSelected (exCfg True) exRd (15, 0, 0) (0, 0, 0) (0, 0, 0) s1"
  have s3: "isSelected s3 = 0" "cutStatus s3 0 = (\<lambda>k. k \<noteq> 0)" "cutStatus s3 1 = (\<lambda>k. k \<noteq> 0)"
    "cutStatus s3 2 = (\<lambda>k. k \<noteq> 0)" "cutStatus s3 3 = (\<lambda>k. k \<noteq> 0)"
    unfolding s3_def
    by (simp_all add: is3ProngSelected_def decays3 sel3Decay_def rejectAt_def exCfg_simps
        exRd_simps findBin_def CLRBIT_def BIT_def s1 fun_eq_iff)
  have bits: "cutStatusBits nCuts3Prong nCutStatus3ProngBit (\<lambda>k. k \<noteq> 0) = 14"
    by (simp add: cutStatusBits_def nCuts3Prong_def ex_mask_values upt_rec CLRBIT_def BIT_def)
  define S3 where "S3 = is3ProngSelected (exCfg True) exRd
      (RecoDecay_PVec exRd
         [trackMom (df3_process (exDf 1) (exTrack 1 1 15) (exTrack 2 (- 1) 0) (exTrack 3 1 0)) 0,
          trackMom (df3_process (exDf 1) (exTrack 1 1 15) (exTrack 2 (- 1) 0) (exTrack 3 1 0)) 1,
          trackMom (df3_process (exDf 1) (exTrack 1 1 15) (exTrack 2 (- 1) 0) (exTrack 3 1 0)) 2])
      (PCACandidate (df3_process (exDf 1) (exTrack 1 1 15) (exTrack 2 (- 1) 0) (exTrack 3 1 0)))
      (0, 0, 0)
      (is3ProngPreselected (exCfg True) exRd (exTrack 1 1 15) (exTrack 2 (- 1) 0) (exTrack 3 1 0)
         \<lparr>cutStatus = resetCutStatus n3ProngDecays nCuts3Prong (cutStatus3Prong exSt),
          whichHypo = whichHypo3Prong exSt, isSelected = n3ProngBit\<rparr>)"
  have S3: "S3 = s3"
    by (simp add: S3_def s3_def s1_def exDf_simps exRd_simps exTrack_simps exSt_simps
        resetCutStatus_all_true ex_mask_values)
  define P1 where "P1 = is2ProngPreselected (exCfg True) exRd (exTrack 1 1 15) (exTrack 2 (- 1) 0)
      \<lparr>cutStatus = (if debug (exCfg True)
                    then resetCutStatus n2ProngDecays nCuts2Prong (cutStatus2Prong exSt)
                    else cutStatus2Prong exSt),
       whichHypo = whichHypo2Prong exSt, isSelected = n2ProngBit\<rparr>"
  have P1: "isSelected P1 = 0"
    unfolding P1_def
    by (simp add: is2ProngPreselected_def decays2 presel2Decay_def rejectAt_def exCfg_simps
        exRd_simps exTrack_simps preselPt_def findBin_def ex_mask_values CLRBIT_def BIT_def)
  have h: "debug (exCfg True)"
    "nVtx (df3_process (exDf 1) (exTrack 1 1 15) (exTrack 2 (- 1) 0) (exTrack 3 1 0)) \<noteq> 0"
    by (simp_all add: exCfg_simps exDf_simps)
  note T = zero_bitmask_rows[where cfg = "exCfg True" and rd = exRd and df = "exDf 1"
        and primVtx = "(0, 0, 0)" and st = exSt and tracks = "[]"
        and ta = "exTrack 1 1 15" and tb = "exTrack 2 (- 1) 0" and tc = "exTrack 3 1 0"
        and ua = "exTrack 1 1 15" and ub = "exTrack 2 (- 1) 0", folded S3_def P1_def]
  from T h S3 s3(1) have r3:
    "rowTrackIndexProng3 (prong3Step (exCfg True) exRd (exDf 1) (0, 0, 0)
        (exTrack 1 1 15) (exTrack 2 (- 1) 0) (exTrack 3 1 0) exSt)
       = rowTrackIndexProng3 exSt
           @ [(globalIndex (exTrack 1 1 15), globalIndex (exTrack 2 (- 1) 0), globalIndex (exTrack 3 1 0), 0)]"
    "rowProng3CutStatus (prong3Step (exCfg True) exRd (exDf 1) (0, 0, 0)
        (exTrack 1 1 15) (exTrack 2 (- 1) 0) (exTrack 3 1 0) exSt)
       = rowProng3CutStatus exSt @
             [(cutStatusBits nCuts3Prong nCutStatus3ProngBit (cutStatus S3 0),
               cutStatusBits nCuts3Prong nCutStatus3ProngBit (cutStatus S3 1),
               cutStatusBits nCuts3Prong nCutStatus3ProngBit (cutStatus S3 2),
               cutStatusBits nCuts3Prong nCutStatus3ProngBit (cutStatus S3 3))]"
    by simp_all
  from T P1 have r2: "tables (prong2Step (exCfg True) exRd (exDf 1) (0, 0, 0)
        (exTrack 1 1 15) (exTrack 2 (- 1) 0) exSt) = tables exSt"
    by blast
  show ?thesis
    unfolding r3 r2 S3 s3 bits
    by (simp add: h exTrack_simps exSt_simps)
qed

end
